theory Spec2Isabelle
  imports Complex_Main
begin

section \<open>Section variables of \<open>deltametrics/section.py\<close>\<close>

text \<open>
  The module extracts two-dimensional sections from a three-dimensional cube and prepares
  them for display. Arrays of numpy are lists here: a one-dimensional array is a list, a
  \<open>(Z, M)\<close> array is a list of \<open>Z\<close> rows of \<open>M\<close> entries (an array with no row is \<open>[]\<close>
  whatever its column count). Every \<open>raise\<close> is a result \<open>Inl e\<close>.

  Floating-point values handed to the module (the data, \<open>z\<close>, the stratigraphy attributes)
  are read as real numbers. The along-section coordinate \<open>s\<close> is computed by the module
  from integer index arrays and can hold \<open>nan\<close>; its entries, and the arrays built from
  them, are of the type \<open>npfloat\<close>. Index arrays are arrays of 64-bit integers: their
  entries are integers, and every arithmetic result on them is wrapped into the 64-bit
  range.
\<close>

datatype error =
    ValueError | AttributeError | TypeError | NotImplementedError
  | KeyError | IndexError | MaskError

definition ebind :: "error + 'a \<Rightarrow> ('a \<Rightarrow> error + 'b) \<Rightarrow> error + 'b" where
  "ebind m f = (case m of Inl e \<Rightarrow> Inl e | Inr a \<Rightarrow> f a)"

subsection \<open>Style names (class attributes of \<open>BaseSectionVariable\<close>)\<close>

definition spacetime_names :: "string list" where
  "spacetime_names = [''full'', ''spacetime'', ''as spacetime'', ''as_spacetime'']"

definition preserved_names :: "string list" where
  "preserved_names = [''psvd'', ''preserved'', ''as preserved'', ''as_preserved'']"

definition stratigraphy_names :: "string list" where
  "stratigraphy_names =
     [''strat'', ''strata'', ''stratigraphy'', ''as stratigraphy'', ''as_stratigraphy'']"

subsection \<open>numpy and scipy operations used by the module\<close>

text \<open>\<open>np.meshgrid(s, z)\<close>: both results have \<open>len(z)\<close> rows and \<open>len(s)\<close> columns.\<close>

definition meshgrid :: "'a list \<Rightarrow> 'b list \<Rightarrow> 'a list list \<times> 'b list list" where
  "meshgrid s z = (map (\<lambda>_. s) z, map (\<lambda>v. map (\<lambda>_. v) s) z)"

text \<open>\<open>np.min\<close> and \<open>np.max\<close> of a whole array; numpy raises \<open>ValueError\<close> on an array
  without elements.\<close>

definition np_min :: "real list list \<Rightarrow> error + real" where
  "np_min X = (case concat X of [] \<Rightarrow> Inl ValueError | x # xs \<Rightarrow> Inr (fold min xs x))"

definition np_max :: "real list list \<Rightarrow> error + real" where
  "np_max X = (case concat X of [] \<Rightarrow> Inl ValueError | x # xs \<Rightarrow> Inr (fold max xs x))"

text \<open>A float that may be \<open>nan\<close>. Addition of \<open>nan\<close> is \<open>nan\<close>, and \<open>np.min\<close> and \<open>np.max\<close>
  of an array that holds \<open>nan\<close> are \<open>nan\<close>.\<close>

datatype npfloat = Num real | NaN

fun fadd :: "npfloat \<Rightarrow> npfloat \<Rightarrow> npfloat" where
  "fadd (Num a) (Num b) = Num (a + b)"
| "fadd _ _ = NaN"

fun fmin :: "npfloat \<Rightarrow> npfloat \<Rightarrow> npfloat" where
  "fmin (Num a) (Num b) = Num (min a b)"
| "fmin _ _ = NaN"

fun fmax :: "npfloat \<Rightarrow> npfloat \<Rightarrow> npfloat" where
  "fmax (Num a) (Num b) = Num (max a b)"
| "fmax _ _ = NaN"

definition np_fmin :: "npfloat list list \<Rightarrow> error + npfloat" where
  "np_fmin X = (case concat X of [] \<Rightarrow> Inl ValueError | x # xs \<Rightarrow> Inr (fold fmin xs x))"

definition np_fmax :: "npfloat list list \<Rightarrow> error + npfloat" where
  "np_fmax X = (case concat X of [] \<Rightarrow> Inl ValueError | x # xs \<Rightarrow> Inr (fold fmax xs x))"

text \<open>Arithmetic on 64-bit integers wraps around; \<open>np.sqrt\<close> of an integer array gives
  floats, \<open>nan\<close> for a negative entry.\<close>

definition wrap64 :: "int \<Rightarrow> int" where
  "wrap64 n = (n + 2 ^ 63) mod 2 ^ 64 - 2 ^ 63"

definition sqrt_int64 :: "int \<Rightarrow> npfloat" where
  "sqrt_int64 n = (if n < 0 then NaN else Num (sqrt (real_of_int n)))"

text \<open>Indexing a two-dimensional array with a boolean array of the same shape gives the
  selected entries in row-major order; another shape is an \<open>IndexError\<close>.\<close>

definition boolean_index :: "real list list \<Rightarrow> bool list list \<Rightarrow> error + real list" where
  "boolean_index A B =
     (if map length B = map length A
      then Inr (map fst (filter snd (zip (concat A) (concat B))))
      else Inl IndexError)"

text \<open>\<open>scipy.sparse.coo_matrix((data, (row, col)))\<close> without a shape: the shape is inferred
  as the largest index plus one on each axis. Index arrays of another length than the
  data, empty index arrays and negative indices are refused with \<open>ValueError\<close>.\<close>

record coo_matrix =
  coo_shape :: "nat \<times> nat"
  coo_data :: "real list"
  coo_row :: "nat list"
  coo_col :: "nat list"

definition new_coo_matrix :: "real list \<Rightarrow> int list \<Rightarrow> int list \<Rightarrow> error + coo_matrix" where
  "new_coo_matrix dat row col =
     (if row = [] \<or> col = [] then Inl ValueError
      else if length row \<noteq> length dat \<or> length col \<noteq> length dat then Inl ValueError
      else if (\<exists>r \<in> set row. r < 0) \<or> (\<exists>c \<in> set col. c < 0) then Inl ValueError
      else Inr \<lparr> coo_shape = (nat (fold max (tl row) (hd row)) + 1,
                               nat (fold max (tl col) (hd col)) + 1),
                 coo_data = dat, coo_row = map nat row, coo_col = map nat col \<rparr>)"

text \<open>\<open>toarray()\<close>: the dense array of the inferred shape; entries stored at the same
  position are added up, positions without an entry are zero.\<close>

definition toarray :: "coo_matrix \<Rightarrow> real list list" where
  "toarray m =
     map (\<lambda>r. map (\<lambda>c. sum_list (map fst
            (filter (\<lambda>(v, r', c'). r' = r \<and> c' = c)
               (zip (coo_data m) (zip (coo_row m) (coo_col m))))))
          [0 ..< snd (coo_shape m)])
       [0 ..< fst (coo_shape m)]"

text \<open>\<open>np.ma.MaskedArray(data, mask)\<close>: a mask of another shape than the data is resized
  when it has one element, reshaped when it has as many elements as the data, and refused
  with \<open>MaskError\<close> otherwise.\<close>

datatype display_data = Plain "real list list" | Masked "real list list" "bool list list"

fun take_rows :: "nat list \<Rightarrow> 'a list \<Rightarrow> 'a list list" where
  "take_rows [] xs = []"
| "take_rows (n # ns) xs = take n xs # take_rows ns (drop n xs)"

definition MaskedArray :: "real list list \<Rightarrow> bool list list \<Rightarrow> error + display_data" where
  "MaskedArray A B =
     (if map length B = map length A then Inr (Masked A B)
      else if length (concat B) = 1 then Inr (Masked A (map (map (\<lambda>_. hd (concat B))) A))
      else if length (concat B) = length (concat A)
        then Inr (Masked A (take_rows (map length A) (concat B)))
      else Inl MaskError)"

text \<open>The slice \<open>[:, :-1]\<close> of a plain or masked array drops the last column.\<close>

fun drop_last_column :: "display_data \<Rightarrow> display_data" where
  "drop_last_column (Plain A) = Plain (map butlast A)"
| "drop_last_column (Masked A B) = Masked (map butlast A) (map butlast B)"

subsection \<open>\<open>DataSectionVariable\<close>\<close>

text \<open>
  The stratigraphy attributes handed to a data variable: the dictionary returned by the
  cube's \<open>strat_attr('section', y, x)\<close>, with the five entries the module reads.
\<close>

record strat_attr =
  psvd_idx :: "bool list list"
  z_sp :: "int list"
  s_sp :: "int list"
  psvd_flld :: "real list list"
  strata :: "real list list"

text \<open>
  The arguments of \<open>__new__\<close> and \<open>__init__\<close>. The attributes \<open>_S\<close>, \<open>_Z\<close> and
  \<open>_knows_stratigraphy\<close> are computed from them at construction and are functions of
  the record here.
\<close>

record DataSectionVariable =
  dv_data :: "real list list"
  dv_s :: "npfloat list"
  dv_z :: "real list"
  dv_psvd_mask :: "bool list list option"
  dv_strat_attr :: "strat_attr option"

definition dv_S :: "DataSectionVariable \<Rightarrow> npfloat list list" where
  "dv_S v = fst (meshgrid (dv_s v) (dv_z v))"

definition dv_Z :: "DataSectionVariable \<Rightarrow> real list list" where
  "dv_Z v = snd (meshgrid (dv_s v) (dv_z v))"

definition knows_stratigraphy :: "DataSectionVariable \<Rightarrow> bool" where
  "knows_stratigraphy v = (dv_strat_attr v \<noteq> None)"

definition data_default_style :: string where
  "data_default_style = ''spacetime''"

definition check_knows_stratigraphy :: "DataSectionVariable \<Rightarrow> error + bool" where
  "check_knows_stratigraphy v =
     (if \<not> knows_stratigraphy v then Inl AttributeError else Inr (knows_stratigraphy v))"

text \<open>\<open>self.strat_attr\<close>: the attribute exists only when the bundle was given.\<close>

definition get_strat_attr :: "DataSectionVariable \<Rightarrow> error + strat_attr" where
  "get_strat_attr v = (case dv_strat_attr v of None \<Rightarrow> Inl AttributeError | Some a \<Rightarrow> Inr a)"

text \<open>\<open>~self._psvd_mask\<close> is a \<open>TypeError\<close> when the mask is \<open>None\<close>.\<close>

definition as_preserved :: "DataSectionVariable \<Rightarrow> error + display_data" where
  "as_preserved v =
     ebind (check_knows_stratigraphy v) (\<lambda>_.
       case dv_psvd_mask v of
         None \<Rightarrow> Inl TypeError
       | Some m \<Rightarrow> MaskedArray (dv_data v) (map (map Not) m))"

definition as_stratigraphy :: "DataSectionVariable \<Rightarrow> error + coo_matrix" where
  "as_stratigraphy v =
     ebind (check_knows_stratigraphy v) (\<lambda>_.
     ebind (get_strat_attr v) (\<lambda>a.
     ebind (boolean_index (dv_data v) (psvd_idx a)) (\<lambda>psvd_data.
       new_coo_matrix psvd_data (z_sp a) (s_sp a))))"

definition get_display_arrays ::
  "DataSectionVariable \<Rightarrow> string option \<Rightarrow>
     error + (display_data \<times> npfloat list list \<times> real list list)" where
  "get_display_arrays v style0 =
     (let style = (case style0 of None \<Rightarrow> data_default_style | Some s \<Rightarrow> s) in
      if style \<in> set spacetime_names then Inr (Plain (dv_data v), dv_S v, dv_Z v)
      else if style \<in> set preserved_names then
        ebind (as_preserved v) (\<lambda>p. Inr (p, dv_S v, dv_Z v))
      else if style \<in> set stratigraphy_names then
        ebind (as_stratigraphy v) (\<lambda>sp.
        ebind (get_strat_attr v) (\<lambda>a.
          let arr_Y = take (fst (coo_shape sp)) (psvd_flld a);
              arr_X = replicate (fst (coo_shape sp)) (dv_s v)
          in Inr (Plain (toarray sp), arr_X, arr_Y)))
      else Inl ValueError)"

text \<open>
  \<open>_reshape_long\<close>: for every row and every pair of neighbouring columns, the left and
  the right value, rows one after the other.
\<close>

definition reshape_long :: "'a list list \<Rightarrow> ('a \<times> 'a) list" where
  "reshape_long X = zip (concat (map butlast X)) (concat (map tl X))"

text \<open>\<open>np.concatenate([x, y], axis=2)\<close> needs as many segments in \<open>x\<close> as in \<open>y\<close>; segment
  \<open>k\<close> is \<open>[[x_left, y_left], [x_right, y_right]]\<close>.\<close>

definition concatenate_axis2 ::
  "('a \<times> 'a) list \<Rightarrow> ('b \<times> 'b) list \<Rightarrow> error + (('a \<times> 'b) \<times> ('a \<times> 'b)) list" where
  "concatenate_axis2 x y =
     (if length x = length y
      then Inr (map (\<lambda>((xl, xr), (yl, yr)). ((xl, yl), (xr, yr))) (zip x y))
      else Inl ValueError)"

definition get_display_lines ::
  "DataSectionVariable \<Rightarrow> string option \<Rightarrow>
     error + (display_data \<times> ((npfloat \<times> real) \<times> (npfloat \<times> real)) list)" where
  "get_display_lines v style0 =
     (let style = (case style0 of None \<Rightarrow> data_default_style | Some s \<Rightarrow> s) in
      ebind
        (if style \<in> set spacetime_names then
           Inr (reshape_long (dv_Z v), drop_last_column (Plain (dv_data v)))
         else if style \<in> set preserved_names then
           ebind (check_knows_stratigraphy v) (\<lambda>_.
           ebind (as_preserved v) (\<lambda>p.
             Inr (reshape_long (dv_Z v), drop_last_column p)))
         else if style \<in> set stratigraphy_names then
           ebind (check_knows_stratigraphy v) (\<lambda>_.
           ebind (get_strat_attr v) (\<lambda>a.
             Inr (reshape_long (strata a), drop_last_column (Plain (dv_data v)))))
         else Inl ValueError)
        (\<lambda>(y, dat).
           ebind (concatenate_axis2 (reshape_long (dv_S v)) y) (\<lambda>segments.
             Inr (dat, segments))))"

definition get_display_limits ::
  "DataSectionVariable \<Rightarrow> string option \<Rightarrow>
     error + (npfloat \<times> npfloat \<times> real \<times> real)" where
  "get_display_limits v style0 =
     (let style = (case style0 of None \<Rightarrow> data_default_style | Some s \<Rightarrow> s) in
      if style \<in> set spacetime_names \<or> style \<in> set preserved_names then
        ebind (np_fmin (dv_S v)) (\<lambda>s_min.
        ebind (np_fmax (dv_S v)) (\<lambda>s_max.
        ebind (np_min (dv_Z v)) (\<lambda>z_min.
        ebind (np_max (dv_Z v)) (\<lambda>z_max.
          Inr (s_min, s_max, z_min, z_max)))))
      else if style \<in> set stratigraphy_names then
        ebind (check_knows_stratigraphy v) (\<lambda>_.
        ebind (get_strat_attr v) (\<lambda>a.
        ebind (np_fmin (dv_S v)) (\<lambda>s_min.
        ebind (np_fmax (dv_S v)) (\<lambda>s_max.
        ebind (np_min (strata a)) (\<lambda>z_min.
        ebind (np_max (strata a)) (\<lambda>z_max.
          Inr (s_min, s_max, z_min, z_max * 1.5)))))))
      else Inl ValueError)"

subsection \<open>\<open>StratigraphySectionVariable\<close>\<close>

record StratigraphySectionVariable =
  sv_data :: "real list list"
  sv_s :: "npfloat list"
  sv_z :: "real list"

definition sv_S :: "StratigraphySectionVariable \<Rightarrow> npfloat list list" where
  "sv_S w = fst (meshgrid (sv_s w) (sv_z w))"

definition sv_Z :: "StratigraphySectionVariable \<Rightarrow> real list list" where
  "sv_Z w = snd (meshgrid (sv_s w) (sv_z w))"

definition strat_default_style :: string where
  "strat_default_style = ''stratigraphy''"

text \<open>\<open>_check_knows_spacetime\<close> raises whenever it is called.\<close>

definition check_knows_spacetime :: "StratigraphySectionVariable \<Rightarrow> error + 'a" where
  "check_knows_spacetime w = Inl AttributeError"

definition strat_get_display_arrays ::
  "StratigraphySectionVariable \<Rightarrow> string option \<Rightarrow>
     error + (display_data \<times> npfloat list list \<times> real list list)" where
  "strat_get_display_arrays w style0 =
     (let style = (case style0 of None \<Rightarrow> strat_default_style | Some s \<Rightarrow> s) in
      if style \<in> set spacetime_names then check_knows_spacetime w
      else if style \<in> set preserved_names then check_knows_spacetime w
      else if style \<in> set stratigraphy_names then Inr (Plain (sv_data w), sv_S w, sv_Z w)
      else Inl ValueError)"

definition strat_get_display_lines ::
  "StratigraphySectionVariable \<Rightarrow> string option \<Rightarrow>
     error + (display_data \<times> ((npfloat \<times> real) \<times> (npfloat \<times> real)) list)" where
  "strat_get_display_lines w style0 =
     (let style = (case style0 of None \<Rightarrow> strat_default_style | Some s \<Rightarrow> s) in
      if style \<in> set spacetime_names then check_knows_spacetime w
      else if style \<in> set preserved_names then check_knows_spacetime w
      else if style \<in> set stratigraphy_names then Inl NotImplementedError
      else Inl ValueError)"

definition strat_get_display_limits ::
  "StratigraphySectionVariable \<Rightarrow> string option \<Rightarrow>
     error + (npfloat \<times> npfloat \<times> real \<times> real)" where
  "strat_get_display_limits w style0 =
     (let style = (case style0 of None \<Rightarrow> strat_default_style | Some s \<Rightarrow> s) in
      if style \<in> set spacetime_names then check_knows_spacetime w
      else if style \<in> set preserved_names then check_knows_spacetime w
      else if style \<in> set stratigraphy_names then
        ebind (np_fmin (sv_S w)) (\<lambda>s_min.
        ebind (np_fmax (sv_S w)) (\<lambda>s_max.
        ebind (np_min (sv_Z w)) (\<lambda>z_min.
        ebind (np_max (sv_Z w)) (\<lambda>z_max.
          Inr (s_min, s_max, z_min, z_max * 1.5)))))
      else Inl ValueError)"

section \<open>Sections\<close>

subsection \<open>The cube\<close>

text \<open>
  Modelled from the spec: the module \<open>cube\<close> is not among these sources. A volume has a
  class, named variables that are three-dimensional arrays indexed by (layer, y, x), a
  vertical coordinate \<open>z\<close>, a flag \<open>_knows_stratigraphy\<close>, a preservation array
  \<open>strat_attr.psvd_idx\<close> indexed like a variable, and the call
  \<open>strat_attr('section', y, x)\<close> that returns the attribute bundle of a footprint.
  A three-dimensional array carries its shape, so that an array without layers still has
  its two horizontal extents.
\<close>

record 'a array3 =
  a3_shape :: "nat \<times> nat \<times> nat"
  a3_cells :: "'a list list list"

definition wf_array3 :: "'a array3 \<Rightarrow> bool" where
  "wf_array3 a =
     (case a3_shape a of (nt, ny, nx) \<Rightarrow>
        length (a3_cells a) = nt \<and>
        (\<forall>layer \<in> set (a3_cells a).
           length layer = ny \<and> (\<forall>row \<in> set layer. length row = nx)))"

text \<open>\<open>OtherCube\<close> stands for every subclass of \<open>BaseCube\<close> that is neither \<open>DataCube\<close>
  nor \<open>StratigraphyCube\<close>.\<close>

datatype cube_class = DataCube | StratigraphyCube | OtherCube

record cube =
  cube_class :: cube_class
  cube_vars :: "(string \<times> real array3) list"
  cube_z :: "real list"
  cube_knows_stratigraphy :: bool
  cube_psvd_idx :: "bool array3"
  cube_strat_attr :: "int list \<Rightarrow> int list \<Rightarrow> strat_attr"

definition cube_variables :: "cube \<Rightarrow> string list" where
  "cube_variables c = map fst (cube_vars c)"

definition cube_getitem :: "cube \<Rightarrow> string \<Rightarrow> error + real array3" where
  "cube_getitem c var = (case map_of (cube_vars c) var of None \<Rightarrow> Inl KeyError | Some a \<Rightarrow> Inr a)"

text \<open>An argument of a constructor or of \<open>connect\<close>: a cube, or an object of another
  type.\<close>

datatype pyobject = CubeInstance cube | NotACube

subsection \<open>Index arrays\<close>

text \<open>An integer index into an axis of extent \<open>n\<close>: negative indices count from the end,
  anything outside \<open>-n .. n-1\<close> is refused.\<close>

definition norm_index :: "nat \<Rightarrow> int \<Rightarrow> nat option" where
  "norm_index n i =
     (if 0 \<le> i \<and> i < int n then Some (nat i)
      else if - int n \<le> i \<and> i < 0 then Some (nat (i + int n))
      else None)"

text \<open>Broadcasting of two one-dimensional arrays: equal lengths pair up, an array of
  length one is repeated, anything else fails.\<close>

definition broadcast2 :: "'a list \<Rightarrow> 'b list \<Rightarrow> ('a \<times> 'b) list option" where
  "broadcast2 xs ys =
     (if length xs = length ys then Some (zip xs ys)
      else if length xs = 1 then Some (map (\<lambda>y. (hd xs, y)) ys)
      else if length ys = 1 then Some (map (\<lambda>x. (x, hd ys)) xs)
      else None)"

text \<open>\<open>a[:, y, x]\<close> with two integer index arrays: one row per layer, one column per
  index pair.\<close>

definition fancy_index :: "'a array3 \<Rightarrow> int list \<Rightarrow> int list \<Rightarrow> error + 'a list list" where
  "fancy_index a ys xs =
     (case a3_shape a of (nt, ny, nx) \<Rightarrow>
        (case broadcast2 ys xs of
           None \<Rightarrow> Inl IndexError
         | Some yx \<Rightarrow>
             if \<forall>(j, i) \<in> set yx. norm_index ny j \<noteq> None \<and> norm_index nx i \<noteq> None
             then Inr (map (\<lambda>layer.
                         map (\<lambda>(j, i). layer ! the (norm_index ny j) ! the (norm_index nx i)) yx)
                       (a3_cells a))
             else Inl IndexError))"

subsection \<open>\<open>BaseSection\<close>, \<open>PathSection\<close> and \<open>StrikeSection\<close>\<close>

text \<open>
  The two section classes that can be constructed: a path section keeps the \<open>Mx2\<close> array
  \<open>path\<close> (a list of rows, each row the pair of its column 0 and column 1), a strike
  section keeps the scalar \<open>y\<close>. \<open>DipSection\<close> and \<open>RadialSection\<close> do not implement
  the abstract \<open>_compute_section_coords\<close>, so no object of these classes is ever made
  (the call fails with \<open>TypeError\<close>), and \<open>BaseSection.__init__\<close> is not reached.

  \<open>__init__\<close> sets \<open>_s\<close>, \<open>_z\<close>, \<open>_x\<close>, \<open>_y\<close>, \<open>_variables\<close> and \<open>cube\<close> to \<open>None\<close>, and
  \<open>connect\<close> sets all six; they are one optional record here. A \<open>connect\<close> that raises
  returns no section.
\<close>

datatype section_class = PathSection "(int \<times> int) list" | StrikeSection int

record connection =
  cn_cube :: cube
  cn_variables :: "string list"
  cn_x :: "int list"
  cn_y :: "int list"
  cn_s :: "npfloat list"
  cn_z :: "real list"

record BaseSection =
  sec_class :: section_class
  sec_connection :: "connection option"

definition compute_section_coords :: "section_class \<Rightarrow> cube \<Rightarrow> error + (int list \<times> int list)" where
  "compute_section_coords k c =
     (case k of
        PathSection path \<Rightarrow> Inr (map snd path, map fst path)
      | StrikeSection y \<Rightarrow>
          ebind (cube_getitem c ''eta'') (\<lambda>eta.
            case a3_shape eta of (nt, ny, nx) \<Rightarrow> Inr (map int [0 ..< nx], replicate nx y)))"

text \<open>\<open>np.cumsum\<close> of a float array\<close>

fun cumsum_from :: "npfloat \<Rightarrow> npfloat list \<Rightarrow> npfloat list" where
  "cumsum_from acc [] = []"
| "cumsum_from acc (v # vs) = fadd acc v # cumsum_from (fadd acc v) vs"

definition cumsum :: "npfloat list \<Rightarrow> npfloat list" where
  "cumsum vs = cumsum_from (Num 0) vs"

text \<open>\<open>a[1:] - a[:-1]\<close> on an array of 64-bit integers\<close>

definition diff1 :: "int list \<Rightarrow> int list" where
  "diff1 a = map (\<lambda>(p, q). wrap64 (p - q)) (zip (tl a) (butlast a))"

text \<open>\<open>np.cumsum(np.hstack((0, np.sqrt(dx**2 + dy**2))))\<close>: the squares and their sum are
  64-bit integers, the square root and the running sum are floats.\<close>

definition compute_section_attrs :: "int list \<Rightarrow> int list \<Rightarrow> error + npfloat list" where
  "compute_section_attrs x y =
     (case broadcast2 (map (\<lambda>d. wrap64 (d ^ 2)) (diff1 x))
                      (map (\<lambda>d. wrap64 (d ^ 2)) (diff1 y)) of
        None \<Rightarrow> Inl ValueError
      | Some sq \<Rightarrow> Inr (cumsum (Num 0 # map (\<lambda>(p, q). sqrt_int64 (wrap64 (p + q))) sq)))"

definition connect :: "BaseSection \<Rightarrow> pyobject \<Rightarrow> error + BaseSection" where
  "connect self obj =
     (case obj of
        NotACube \<Rightarrow> Inl TypeError
      | CubeInstance c \<Rightarrow>
          ebind (compute_section_coords (sec_class self) c) (\<lambda>(x, y).
          ebind (compute_section_attrs x y) (\<lambda>s.
            Inr (self\<lparr> sec_connection := Some
                   \<lparr> cn_cube = c, cn_variables = cube_variables c,
                     cn_x = x, cn_y = y, cn_s = s, cn_z = cube_z c \<rparr> \<rparr>))))"

definition BaseSection_init :: "section_class \<Rightarrow> pyobject list \<Rightarrow> error + BaseSection" where
  "BaseSection_init k args =
     (let self = \<lparr> sec_class = k, sec_connection = None \<rparr> in
      if length args > 1 then Inl ValueError
      else if length args > 0 then connect self (hd args)
      else Inr self)"

text \<open>\<open>np.column_stack((x, y))\<close>\<close>

definition trace :: "connection \<Rightarrow> error + (int \<times> int) list" where
  "trace cn =
     (if length (cn_x cn) = length (cn_y cn) then Inr (zip (cn_x cn) (cn_y cn))
      else Inl ValueError)"

datatype section_variable =
    DataVar DataSectionVariable
  | StratVar StratigraphySectionVariable

definition getitem :: "BaseSection \<Rightarrow> string \<Rightarrow> error + section_variable" where
  "getitem self var =
     (case sec_connection self of
        None \<Rightarrow> Inl AttributeError
      | Some cn \<Rightarrow>
         (let c = cn_cube cn in
          case cube_class c of
            DataCube \<Rightarrow>
              if cube_knows_stratigraphy c then
                ebind (cube_getitem c var) (\<lambda>a.
                ebind (fancy_index a (cn_y cn) (cn_x cn)) (\<lambda>d.
                ebind (fancy_index (cube_psvd_idx c) (cn_y cn) (cn_x cn)) (\<lambda>m.
                  Inr (DataVar \<lparr> dv_data = d, dv_s = cn_s cn, dv_z = cn_z cn,
                                 dv_psvd_mask = Some m,
                                 dv_strat_attr =
                                   Some (cube_strat_attr c (cn_y cn) (cn_x cn)) \<rparr>))))
              else
                ebind (cube_getitem c var) (\<lambda>a.
                ebind (fancy_index a (cn_y cn) (cn_x cn)) (\<lambda>d.
                  Inr (DataVar \<lparr> dv_data = d, dv_s = cn_s cn, dv_z = cn_z cn,
                                 dv_psvd_mask = None, dv_strat_attr = None \<rparr>)))
          | StratigraphyCube \<Rightarrow>
              ebind (cube_getitem c var) (\<lambda>a.
              ebind (fancy_index a (cn_y cn) (cn_x cn)) (\<lambda>d.
                Inr (StratVar \<lparr> sv_data = d, sv_s = cn_s cn, sv_z = cn_z cn \<rparr>)))
          | OtherCube \<Rightarrow> Inl TypeError))"

subsection \<open>A name for the step lengths\<close>

text \<open>The array \<open>sqrt((x[1:] - x[:-1])**2 + (y[1:] - y[:-1])**2)\<close> of
  \<open>_compute_section_attrs\<close>, for coordinate arrays of one length, in the arithmetic of
  64-bit integers.\<close>

definition step_lengths :: "int list \<Rightarrow> int list \<Rightarrow> npfloat list" where
  "step_lengths x y = map (\<lambda>(p, q). sqrt_int64 (wrap64 (p + q)))
                       (zip (map (\<lambda>d. wrap64 (d ^ 2)) (diff1 x))
                            (map (\<lambda>d. wrap64 (d ^ 2)) (diff1 y)))"

section \<open>Example values\<close>

text \<open>A data variable without stratigraphy, a stratigraphy variable, and a data variable
  with its attribute bundle: the first of its three columns is preserved in both layers,
  the other two in the second layer only.\<close>

definition v_plain :: DataSectionVariable where
  "v_plain = \<lparr> dv_data = [[1, 2, 3], [4, 5, 6]], dv_s = [Num 0, Num 1, Num 2], dv_z = [0, 1],
               dv_psvd_mask = None, dv_strat_attr = None \<rparr>"

definition w_strat :: StratigraphySectionVariable where
  "w_strat = \<lparr> sv_data = [[1, 2, 3], [4, 5, 6]], sv_s = [Num 0, Num 1, Num 2], sv_z = [0, 1] \<rparr>"

definition attr_demo :: strat_attr where
  "attr_demo = \<lparr> psvd_idx = [[True, False, False], [True, True, True]],
                 z_sp = [0, 1, 0, 0], s_sp = [0, 0, 1, 2],
                 psvd_flld = [[0, 0, 0], [1, 1, 1]], strata = [[0, 0, 0], [1, 1/2, 1/2]] \<rparr>"

definition v_strat :: DataSectionVariable where
  "v_strat = \<lparr> dv_data = [[1, 2, 3], [4, 5, 6]], dv_s = [Num 0, Num 1, Num 2], dv_z = [0, 1],
               dv_psvd_mask = Some [[True, False, False], [True, True, True]],
               dv_strat_attr = Some attr_demo \<rparr>"

text \<open>A data cube with one variable of two layers, two rows and three columns; the same
  cube under a class the module does not know; a cube whose variable has no column.\<close>

definition eta_demo :: "real array3" where
  "eta_demo = \<lparr> a3_shape = (2, 2, 3),
                a3_cells = [[[1, 2, 3], [4, 5, 6]], [[7, 8, 9], [10, 11, 12]]] \<rparr>"

definition cube_demo :: cube where
  "cube_demo = \<lparr> cube_class = DataCube, cube_vars = [(''eta'', eta_demo)],
                 cube_z = [0, 1], cube_knows_stratigraphy = False,
                 cube_psvd_idx = \<lparr> a3_shape = (2, 2, 3),
                   a3_cells = [[[True, True, True], [True, True, True]],
                               [[True, True, True], [True, True, True]]] \<rparr>,
                 cube_strat_attr = (\<lambda>y x. attr_demo) \<rparr>"

definition cube_other :: cube where
  "cube_other = cube_demo \<lparr> cube_class := OtherCube \<rparr>"

definition eta_flat :: "real array3" where
  "eta_flat = \<lparr> a3_shape = (1, 1, 0), a3_cells = [[[]]] \<rparr>"

definition cube_flat :: cube where
  "cube_flat = cube_demo \<lparr> cube_vars := [(''eta'', eta_flat)], cube_z := [0] \<rparr>"

text \<open>The connections that \<open>connect\<close> computes for the path \<open>[[0, 1]]\<close>, for the path
  \<open>[[0, 0], [1, 2]]\<close> and for the path without points on the first cube, and for a strike
  section on the cube without columns; and the variable extracted along the empty path.\<close>

definition cn_one_point :: connection where
  "cn_one_point = \<lparr> cn_cube = cube_demo, cn_variables = [''eta''], cn_x = [1], cn_y = [0],
                    cn_s = [Num 0], cn_z = [0, 1] \<rparr>"

definition cn_path_demo :: connection where
  "cn_path_demo = \<lparr> cn_cube = cube_demo, cn_variables = [''eta''], cn_x = [0, 2], cn_y = [0, 1],
                    cn_s = [Num 0, Num (sqrt 5)], cn_z = [0, 1] \<rparr>"

definition cn_empty_path :: connection where
  "cn_empty_path = \<lparr> cn_cube = cube_demo, cn_variables = [''eta''], cn_x = [], cn_y = [],
                     cn_s = [Num 0], cn_z = [0, 1] \<rparr>"

definition cn_strike_flat :: connection where
  "cn_strike_flat = \<lparr> cn_cube = cube_flat, cn_variables = [''eta''], cn_x = [], cn_y = [],
                      cn_s = [Num 0], cn_z = [0] \<rparr>"

text \<open>The connection for the path \<open>[[0, 0], [0, 4000000000]]\<close>: the square of the step in
  \<open>x\<close> leaves the 64-bit range and wraps to a negative number.\<close>

definition cn_overflow :: connection where
  "cn_overflow = \<lparr> cn_cube = cube_demo, cn_variables = [''eta''], cn_x = [0, 4000000000],
                   cn_y = [0, 0], cn_s = [Num 0, NaN], cn_z = [0, 1] \<rparr>"

definition v_empty_path :: DataSectionVariable where
  "v_empty_path = \<lparr> dv_data = [[], []], dv_s = [Num 0], dv_z = [0, 1],
                    dv_psvd_mask = None, dv_strat_attr = None \<rparr>"

section \<open>Properties\<close>

subsection \<open>Auxiliary facts\<close>

lemma ebind_Inl [simp]: "ebind (Inl e) f = Inl e"
  by (simp add: ebind_def)

lemma ebind_Inr [simp]: "ebind (Inr a) f = f a"
  by (simp add: ebind_def)

lemmas style_names = spacetime_names_def preserved_names_def stratigraphy_names_def

lemma check_knows_stratigraphy_unknown:
  "\<not> knows_stratigraphy v \<Longrightarrow> check_knows_stratigraphy v = Inl AttributeError"
  by (simp add: check_knows_stratigraphy_def)

lemma preserved_not_spacetime:
  "style \<in> set preserved_names \<Longrightarrow> style \<notin> set spacetime_names"
  by (auto simp: style_names)

lemma stratigraphy_not_spacetime:
  "style \<in> set stratigraphy_names \<Longrightarrow> style \<notin> set spacetime_names"
  by (auto simp: style_names)

lemma stratigraphy_not_preserved:
  "style \<in> set stratigraphy_names \<Longrightarrow> style \<notin> set preserved_names"
  by (auto simp: style_names)

lemma np_min_eq:
  "np_min X = (if concat X = [] then Inl ValueError else Inr (Min (set (concat X))))"
proof (cases "concat X")
  case Nil
  then show ?thesis by (simp add: np_min_def del: concat_eq_Nil_conv)
next
  case (Cons a as)
  then show ?thesis by (simp add: np_min_def Min.set_eq_fold [symmetric])
qed

lemma np_max_eq:
  "np_max X = (if concat X = [] then Inl ValueError else Inr (Max (set (concat X))))"
proof (cases "concat X")
  case Nil
  then show ?thesis by (simp add: np_max_def del: concat_eq_Nil_conv)
next
  case (Cons a as)
  then show ?thesis by (simp add: np_max_def Max.set_eq_fold [symmetric])
qed

lemma np_min_nonempty: "concat X \<noteq> [] \<Longrightarrow> np_min X = Inr (Min (set (concat X)))"
  by (simp only: np_min_eq if_False)

lemma np_max_nonempty: "concat X \<noteq> [] \<Longrightarrow> np_max X = Inr (Max (set (concat X)))"
  by (simp only: np_max_eq if_False)

lemma np_min_empty: "concat X = [] \<Longrightarrow> np_min X = Inl ValueError"
  by (simp add: np_min_eq del: concat_eq_Nil_conv)

lemma np_max_empty: "concat X = [] \<Longrightarrow> np_max X = Inl ValueError"
  by (simp add: np_max_eq del: concat_eq_Nil_conv)

lemma fold_fmin_NaN: "fold fmin xs NaN = NaN"
  by (induction xs) simp_all

lemma fold_fmax_NaN: "fold fmax xs NaN = NaN"
  by (induction xs) simp_all

lemma fold_fmin_has_NaN: "NaN \<in> set xs \<Longrightarrow> fold fmin xs a = NaN"
  by (induction xs arbitrary: a) (auto simp: fold_fmin_NaN)

lemma fold_fmax_has_NaN: "NaN \<in> set xs \<Longrightarrow> fold fmax xs a = NaN"
  by (induction xs arbitrary: a) (auto simp: fold_fmax_NaN)

lemma fold_fmin_Num: "fold fmin (map Num ys) (Num y) = Num (fold min ys y)"
  by (induction ys arbitrary: y) (simp_all add: min.commute)

lemma fold_fmax_Num: "fold fmax (map Num ys) (Num y) = Num (fold max ys y)"
  by (induction ys arbitrary: y) (simp_all add: max.commute)

lemma np_fmin_spec:
  assumes "concat X \<noteq> []"
  shows "\<exists>m. np_fmin X = Inr m \<and> (NaN \<in> set (concat X) \<longrightarrow> m = NaN) \<and>
             (\<forall>ys. concat X = map Num ys \<longrightarrow> m = Num (Min (set ys)))"
proof -
  from assms obtain x xs where c: "concat X = x # xs" by (cases "concat X") simp_all
  have r: "np_fmin X = Inr (fold fmin xs x)"
    by (simp add: np_fmin_def c)
  have n: "fold fmin xs x = NaN" if "NaN \<in> set (concat X)"
    using that c by (cases "x = NaN") (auto simp: fold_fmin_NaN fold_fmin_has_NaN)
  have f: "fold fmin xs x = Num (Min (set ys))" if "concat X = map Num ys" for ys
  proof -
    from that c obtain y ys' where ys: "ys = y # ys'" "x = Num y" "xs = map Num ys'"
      by (cases ys) auto
    then show ?thesis by (simp add: fold_fmin_Num Min.set_eq_fold [symmetric])
  qed
  from r n f show ?thesis by simp
qed

lemma np_fmax_spec:
  assumes "concat X \<noteq> []"
  shows "\<exists>m. np_fmax X = Inr m \<and> (NaN \<in> set (concat X) \<longrightarrow> m = NaN) \<and>
             (\<forall>ys. concat X = map Num ys \<longrightarrow> m = Num (Max (set ys)))"
proof -
  from assms obtain x xs where c: "concat X = x # xs" by (cases "concat X") simp_all
  have r: "np_fmax X = Inr (fold fmax xs x)"
    by (simp add: np_fmax_def c)
  have n: "fold fmax xs x = NaN" if "NaN \<in> set (concat X)"
    using that c by (cases "x = NaN") (auto simp: fold_fmax_NaN fold_fmax_has_NaN)
  have f: "fold fmax xs x = Num (Max (set ys))" if "concat X = map Num ys" for ys
  proof -
    from that c obtain y ys' where ys: "ys = y # ys'" "x = Num y" "xs = map Num ys'"
      by (cases ys) auto
    then show ?thesis by (simp add: fold_fmax_Num Max.set_eq_fold [symmetric])
  qed
  from r n f show ?thesis by simp
qed

lemma np_fmin_error: "np_fmin X = Inl e \<Longrightarrow> e = ValueError"
  by (simp add: np_fmin_def split: list.splits)

lemma np_fmax_error: "np_fmax X = Inl e \<Longrightarrow> e = ValueError"
  by (simp add: np_fmax_def split: list.splits)

lemma np_min_error: "np_min X = Inl e \<Longrightarrow> e = ValueError"
  by (simp add: np_min_def split: list.splits)

lemma np_max_error: "np_max X = Inl e \<Longrightarrow> e = ValueError"
  by (simp add: np_max_def split: list.splits)

lemma spacetime_limits:
  "style \<in> set spacetime_names \<or> style \<in> set preserved_names \<Longrightarrow>
   get_display_limits v (Some style) =
     ebind (np_fmin (dv_S v)) (\<lambda>s_min.
     ebind (np_fmax (dv_S v)) (\<lambda>s_max.
     ebind (np_min (dv_Z v)) (\<lambda>z_min.
     ebind (np_max (dv_Z v)) (\<lambda>z_max.
       Inr (s_min, s_max, z_min, z_max)))))"
  by (auto simp add: get_display_limits_def)

lemma spacetime_limits_error:
  assumes "style \<in> set spacetime_names \<or> style \<in> set preserved_names"
    and "get_display_limits v (Some style) = Inl e"
  shows "e = ValueError"
  using assms(2) unfolding spacetime_limits [OF assms(1)]
  by (auto simp: ebind_def split: sum.splits
      dest: np_fmin_error np_fmax_error np_min_error np_max_error)

lemma length_diff1 [simp]: "length (diff1 a) = length a - 1"
  by (simp add: diff1_def)

lemma broadcast2_same_length:
  "length xs = length ys \<Longrightarrow> broadcast2 xs ys = Some (zip xs ys)"
  by (simp add: broadcast2_def)

lemma compute_section_attrs_same_length:
  "length x = length y \<Longrightarrow>
   compute_section_attrs x y = Inr (cumsum (Num 0 # step_lengths x y))"
  by (simp add: compute_section_attrs_def step_lengths_def broadcast2_same_length)

lemma compute_section_coords_length:
  "compute_section_coords k c = Inr (x, y) \<Longrightarrow> length x = length y"
  by (cases k) (auto simp: compute_section_coords_def ebind_def split: sum.splits prod.splits)

lemma connect_path:
  "sec_class self = PathSection path \<Longrightarrow>
   connect self (CubeInstance c) =
     Inr (self\<lparr> sec_connection := Some
            \<lparr> cn_cube = c, cn_variables = cube_variables c,
              cn_x = map snd path, cn_y = map fst path,
              cn_s = cumsum (Num 0 # step_lengths (map snd path) (map fst path)),
              cn_z = cube_z c \<rparr> \<rparr>)"
  by (simp add: connect_def compute_section_coords_def compute_section_attrs_same_length)

lemma path_trace:
  "sec_class self = PathSection path \<Longrightarrow>
   connect self (CubeInstance c) = Inr self' \<Longrightarrow>
   \<exists>cn. sec_connection self' = Some cn \<and> trace cn = Inr (map (\<lambda>(a, b). (b, a)) path)"
  by (auto simp: connect_path trace_def zip_map_map zip_same_conv_map
      intro!: nth_equalityI split: prod.splits)

lemma length_cumsum_from [simp]: "length (cumsum_from acc vs) = length vs"
  by (induction vs arbitrary: acc) simp_all

lemma cumsum_from_nth_Suc:
  "Suc i < length vs \<Longrightarrow>
   cumsum_from acc vs ! Suc i = fadd (cumsum_from acc vs ! i) (vs ! Suc i)"
proof (induction vs arbitrary: acc i)
  case Nil
  then show ?case by simp
next
  case (Cons v vs)
  show ?case
  proof (cases i)
    case 0
    with Cons.prems show ?thesis by (cases vs) simp_all
  next
    case (Suc j)
    with Cons.prems have "Suc j < length vs" by simp
    from Cons.IH [OF this, of "fadd acc v"] Suc show ?thesis by simp
  qed
qed

lemma cumsum_nth_0: "cumsum (Num 0 # vs) ! 0 = Num 0"
  by (simp add: cumsum_def)

lemma cumsum_nth_Suc:
  "Suc i < length vs \<Longrightarrow> cumsum vs ! Suc i = fadd (cumsum vs ! i) (vs ! Suc i)"
  by (simp add: cumsum_def cumsum_from_nth_Suc)

lemma cumsum_from_finite:
  "\<forall>v \<in> set rs. 0 \<le> v \<Longrightarrow>
   \<exists>ts. cumsum_from (Num a) (map Num rs) = map Num ts \<and> sorted ts \<and> (\<forall>t \<in> set ts. a \<le> t)"
proof (induction rs arbitrary: a)
  case Nil
  show ?case by simp
next
  case (Cons r rs)
  then have r: "0 \<le> r" and rs: "\<forall>v \<in> set rs. 0 \<le> v" by simp_all
  from Cons.IH [OF rs, of "a + r"] obtain ts
    where ts: "cumsum_from (Num (a + r)) (map Num rs) = map Num ts" "sorted ts"
      "\<forall>t \<in> set ts. a + r \<le> t"
    by blast
  have "cumsum_from (Num a) (map Num (r # rs)) = map Num ((a + r) # ts)"
    by (simp add: ts(1))
  moreover have "sorted ((a + r) # ts)"
    using ts(2,3) by simp
  moreover have "\<forall>t \<in> set ((a + r) # ts). a \<le> t"
    using ts(3) r by fastforce
  ultimately show ?case by blast
qed

lemma cumsum_finite:
  "\<forall>v \<in> set rs. 0 \<le> v \<Longrightarrow> \<exists>ts. cumsum (Num 0 # map Num rs) = map Num ts \<and> sorted ts"
proof -
  assume "\<forall>v \<in> set rs. 0 \<le> v"
  then have "\<forall>v \<in> set (0 # rs). 0 \<le> v" by simp
  from cumsum_from_finite [OF this, of 0] obtain ts
    where ts: "cumsum_from (Num 0) (map Num (0 # rs)) = map Num ts" "sorted ts"
    by blast
  have eq: "Num 0 # map Num rs = map Num (0 # rs)" by simp
  show ?thesis unfolding cumsum_def eq using ts by blast
qed

lemma diff1_nth: "Suc j < length a \<Longrightarrow> diff1 a ! j = wrap64 (a ! Suc j - a ! j)"
  by (simp add: diff1_def nth_tl nth_butlast)

lemma length_step_lengths: "length x = length y \<Longrightarrow> length (step_lengths x y) = length x - 1"
  by (simp add: step_lengths_def)

lemma step_lengths_nth:
  "length x = length y \<Longrightarrow> Suc j < length x \<Longrightarrow>
   step_lengths x y ! j =
     sqrt_int64 (wrap64 (wrap64 ((wrap64 (x ! Suc j - x ! j)) ^ 2) +
                         wrap64 ((wrap64 (y ! Suc j - y ! j)) ^ 2)))"
  by (simp add: step_lengths_def diff1_nth)

lemma wrap64_id: "- (2 ^ 63) \<le> n \<Longrightarrow> n < 2 ^ 63 \<Longrightarrow> wrap64 n = n"
  by (simp add: wrap64_def)

lemma abs_le_square: "\<bar>d\<bar> \<le> d ^ 2" for d :: int
proof (cases "d = 0")
  case True
  then show ?thesis by simp
next
  case False
  then have "1 \<le> \<bar>d\<bar>" by simp
  then have "\<bar>d\<bar> * 1 \<le> \<bar>d\<bar> * \<bar>d\<bar>" by (intro mult_left_mono) simp_all
  then show ?thesis by (simp add: power2_eq_square)
qed

lemma step_exact:
  fixes a b :: int
  assumes "a ^ 2 + b ^ 2 < 2 ^ 63"
  shows "sqrt_int64 (wrap64 (wrap64 ((wrap64 a) ^ 2) + wrap64 ((wrap64 b) ^ 2))) =
         Num (sqrt (real_of_int (a ^ 2 + b ^ 2)))"
proof -
  have a2: "0 \<le> a ^ 2" and b2: "0 \<le> b ^ 2" by simp_all
  with assms have la: "a ^ 2 < 2 ^ 63" and lb: "b ^ 2 < 2 ^ 63" by linarith+
  from abs_le_square [of a] la have "- (2 ^ 63) \<le> a" "a < 2 ^ 63" by linarith+
  then have wa: "wrap64 a = a" by (rule wrap64_id)
  from abs_le_square [of b] lb have "- (2 ^ 63) \<le> b" "b < 2 ^ 63" by linarith+
  then have wb: "wrap64 b = b" by (rule wrap64_id)
  have wa2: "wrap64 (a ^ 2) = a ^ 2" using a2 la by (intro wrap64_id) linarith+
  have wb2: "wrap64 (b ^ 2) = b ^ 2" using b2 lb by (intro wrap64_id) linarith+
  have ws: "wrap64 (a ^ 2 + b ^ 2) = a ^ 2 + b ^ 2"
    using a2 b2 assms by (intro wrap64_id) linarith+
  have "0 \<le> a ^ 2 + b ^ 2" using a2 b2 by linarith
  then show ?thesis
    by (simp only: wa wb wa2 wb2 ws sqrt_int64_def not_less [symmetric] if_False)
qed

lemma step_lengths_exact:
  assumes "length x = length y"
    and "\<forall>j. Suc j < length x \<longrightarrow> (x ! Suc j - x ! j) ^ 2 + (y ! Suc j - y ! j) ^ 2 < 2 ^ 63"
  shows "step_lengths x y =
         map Num (map (\<lambda>j. sqrt (real_of_int ((x ! Suc j - x ! j) ^ 2 + (y ! Suc j - y ! j) ^ 2)))
                    [0 ..< length x - 1])"
proof (rule nth_equalityI)
  show "length (step_lengths x y) =
        length (map Num (map (\<lambda>j. sqrt (real_of_int ((x ! Suc j - x ! j) ^ 2 +
                  (y ! Suc j - y ! j) ^ 2))) [0 ..< length x - 1]))"
    using assms(1) by (simp add: length_step_lengths)
next
  fix j assume "j < length (step_lengths x y)"
  then have j: "Suc j < length x" using assms(1) by (simp add: length_step_lengths)
  with assms(2) have "(x ! Suc j - x ! j) ^ 2 + (y ! Suc j - y ! j) ^ 2 < 2 ^ 63" by blast
  from step_exact [OF this] j assms(1)
  show "step_lengths x y ! j =
        map Num (map (\<lambda>j. sqrt (real_of_int ((x ! Suc j - x ! j) ^ 2 +
                  (y ! Suc j - y ! j) ^ 2))) [0 ..< length x - 1]) ! j"
    by (simp add: step_lengths_nth)
qed

lemma connect_s:
  assumes "connect self (CubeInstance c) = Inr self'" and "sec_connection self' = Some cn"
  shows "length (cn_x cn) = length (cn_y cn) \<and>
         cn_s cn = cumsum (Num 0 # step_lengths (cn_x cn) (cn_y cn)) \<and>
         cn_z cn = cube_z c \<and> cn_cube cn = c \<and>
         compute_section_coords (sec_class self) c = Inr (cn_x cn, cn_y cn)"
proof -
  from assms(1) obtain x y where xy: "compute_section_coords (sec_class self) c = Inr (x, y)"
    by (auto simp: connect_def ebind_def split: sum.splits)
  then have len: "length x = length y" by (rule compute_section_coords_length)
  from assms xy len show ?thesis
    by (auto simp: connect_def compute_section_attrs_same_length)
qed

lemma step_lengths_strike:
  "step_lengths (map int [0 ..< nx]) (replicate nx y0) = replicate (nx - 1) (Num 1)"
proof (rule nth_equalityI)
  show "length (step_lengths (map int [0 ..< nx]) (replicate nx y0)) =
        length (replicate (nx - 1) (Num 1))"
    by (simp add: length_step_lengths)
next
  fix j assume "j < length (step_lengths (map int [0 ..< nx]) (replicate nx y0))"
  then have j: "Suc j < nx" by (simp add: length_step_lengths)
  then have "step_lengths (map int [0 ..< nx]) (replicate nx y0) ! j = Num 1"
    by (simp add: step_lengths_nth wrap64_def sqrt_int64_def)
  with j show "step_lengths (map int [0 ..< nx]) (replicate nx y0) ! j =
               replicate (nx - 1) (Num 1) ! j"
    by simp
qed

lemma cumsum_from_unit_steps_nth:
  "i < n \<Longrightarrow> cumsum_from (Num a) (replicate n (Num 1)) ! i = Num (a + 1 + real i)"
proof (induction n arbitrary: a i)
  case 0
  then show ?case by simp
next
  case (Suc n)
  show ?case
  proof (cases i)
    case 0
    then show ?thesis by simp
  next
    case (Suc j)
    with Suc.prems have "j < n" by simp
    from Suc.IH [OF this, of "a + 1"] Suc show ?thesis by (simp add: add.assoc)
  qed
qed

lemma cumsum_unit_steps:
  "cumsum (Num 0 # replicate n (Num 1)) = map (\<lambda>i. Num (real i)) [0 ..< Suc n]"
proof (rule nth_equalityI)
  show "length (cumsum (Num 0 # replicate n (Num 1))) = length (map (\<lambda>i. Num (real i)) [0 ..< Suc n])"
    by (simp add: cumsum_def)
next
  fix i assume "i < length (cumsum (Num 0 # replicate n (Num 1)))"
  then have i: "i < Suc n" by (simp add: cumsum_def)
  have "cumsum (Num 0 # replicate n (Num 1)) ! i = Num (real i)"
  proof (cases i)
    case 0
    then show ?thesis by (simp add: cumsum_def)
  next
    case (Suc j)
    with i have "j < n" by simp
    from cumsum_from_unit_steps_nth [OF this, of 0] Suc show ?thesis
      by (simp add: cumsum_def)
  qed
  with i show "cumsum (Num 0 # replicate n (Num 1)) ! i = map (\<lambda>i. Num (real i)) [0 ..< Suc n] ! i"
    by (simp only: nth_map_upt add_0 length_upt diff_zero nth_map nth_upt)
qed

lemmas int64_eval = step_lengths_def diff1_def wrap64_def sqrt_int64_def cumsum_def

lemma connect_path_demo:
  "connect \<lparr> sec_class = PathSection [(0, 0), (1, 2)], sec_connection = None \<rparr>
     (CubeInstance cube_demo) =
   Inr \<lparr> sec_class = PathSection [(0, 0), (1, 2)], sec_connection = Some cn_path_demo \<rparr>"
  by (simp add: connect_path int64_eval cube_variables_def cube_demo_def cn_path_demo_def)

lemma fancy_index_same_shape:
  "fancy_index a ys xs = Inr d \<Longrightarrow> a3_shape b = a3_shape a \<Longrightarrow> \<exists>m. fancy_index b ys xs = Inr m"
  by (fastforce simp: fancy_index_def split: prod.splits option.splits if_splits)

lemma fancy_index_rows:
  "fancy_index a ys xs = Inr d \<Longrightarrow> length ys = length xs \<Longrightarrow>
   length d = length (a3_cells a) \<and> (\<forall>row \<in> set d. length row = length xs)"
  by (auto simp: fancy_index_def broadcast2_def split: prod.splits option.splits if_splits)

lemma cube_getitem_variables:
  "cube_getitem c var = Inr a \<Longrightarrow> var \<in> set (cube_variables c)"
  by (auto simp: cube_getitem_def cube_variables_def split: option.splits dest: map_of_SomeD
      intro: rev_image_eqI)

lemma variables_cube_getitem:
  "var \<in> set (cube_variables c) \<Longrightarrow> \<exists>a. cube_getitem c var = Inr a"
  by (cases "map_of (cube_vars c) var")
    (auto simp: cube_getitem_def cube_variables_def map_of_eq_None_iff)

lemma fold_max_Max: "xs \<noteq> [] \<Longrightarrow> fold max (tl xs) (hd xs) = Max (set xs)"
  by (cases xs) (simp_all add: Max.set_eq_fold [symmetric])

lemma new_coo_matrix_shape:
  assumes "row \<noteq> []" and "length row = length dat" and "length col = length dat"
    and "\<forall>r \<in> set row. 0 \<le> r" and "\<forall>c \<in> set col. 0 \<le> c"
  shows "\<exists>m. new_coo_matrix dat row col = Inr m \<and>
             coo_shape m = (nat (Max (set row)) + 1, nat (Max (set col)) + 1)"
proof -
  from assms(1,2,3) have col: "col \<noteq> []" by auto
  have "\<not> ((\<exists>r \<in> set row. r < 0) \<or> (\<exists>c \<in> set col. c < 0))"
    using assms(4,5) by (auto simp: not_less)
  with assms(1,2,3) col show ?thesis
    by (simp add: new_coo_matrix_def fold_max_Max)
qed

lemma toarray_shape:
  "length (toarray m) = fst (coo_shape m) \<and>
   (\<forall>row \<in> set (toarray m). length row = snd (coo_shape m))"
  by (auto simp: toarray_def)

subsection \<open>Path sections\<close>

text \<open>
  Claim C1. The claim is that \<open>trace\<close> of a connected path section equals the array
  \<open>path\<close>. The docstrings of the module say so too: \<open>path\<close> holds x-y pairs, \<open>trace\<close>
  holds the coordinates in the x-y plane. The code takes column 1 of \<open>path\<close> as \<open>_x\<close> and column 0 as \<open>_y\<close>, so
  that \<open>trace\<close> is \<open>path\<close> with its two columns exchanged (lemma \<open>path_trace\<close>). For the
  path \<open>[[0, 1]]\<close> the trace is \<open>[[1, 0]]\<close>.
\<close>

theorem path_trace_columns_swapped:
  "BaseSection_init (PathSection [(0, 1)]) [CubeInstance cube_demo] =
     Inr \<lparr> sec_class = PathSection [(0, 1)], sec_connection = Some cn_one_point \<rparr> \<and>
   trace cn_one_point = Inr [(1, 0)]"
  by (simp add: BaseSection_init_def connect_path trace_def int64_eval
      cube_variables_def cube_demo_def cn_one_point_def)

subsection \<open>Stratigraphy display arrays\<close>

text \<open>
  Claim C2, as stated, fails: the X mesh is \<open>s\<close> tiled once per row of the densified
  array, so it has as many rows as that array and \<open>len(s)\<close> columns. For the example
  variable the densified array has two rows and the X mesh has three columns.
\<close>

theorem stratigraphy_mesh_columns_counterexample:
  "knows_stratigraphy v_strat \<and>
   get_display_arrays v_strat (Some ''stratigraphy'') =
     Inr (Plain [[1, 5, 6], [4, 0, 0]],
          [[Num 0, Num 1, Num 2], [Num 0, Num 1, Num 2]], [[0, 0, 0], [1, 1, 1]]) \<and>
   length (hd [[Num 0, Num 1, Num 2], [Num 0, Num 1, Num 2]]) \<noteq>
     length [[1, 5, 6], [4, 0, 0 :: real]]"
  by (simp add: knows_stratigraphy_def get_display_arrays_def as_stratigraphy_def
      check_knows_stratigraphy_def get_strat_attr_def boolean_index_def new_coo_matrix_def
      toarray_def v_strat_def attr_demo_def style_names upt_rec numeral_2_eq_2)

text \<open>
  Claim C2, amended. For a data variable that knows stratigraphy, whose bundle gives one
  non-negative row index and one non-negative column index for each preserved value (and
  at least one), \<open>get_display_arrays\<close> with a stratigraphy name returns a densified array
  with (largest \<open>z_sp\<close>) + 1 rows, an X mesh with the same number of rows, each row
  being \<open>s\<close>, and the Y mesh \<open>psvd_flld\<close> cut to that number of rows. When every \<open>z_sp\<close>
  is below the number of layers, the densified array has at most that many rows.
\<close>

theorem stratigraphy_display_arrays:
  assumes "dv_strat_attr v = Some a"
    and "style \<in> set stratigraphy_names"
    and "boolean_index (dv_data v) (psvd_idx a) = Inr psvd_data"
    and "psvd_data \<noteq> []"
    and "length (z_sp a) = length psvd_data"
    and "length (s_sp a) = length psvd_data"
    and "\<forall>r \<in> set (z_sp a). 0 \<le> r"
    and "\<forall>c \<in> set (s_sp a). 0 \<le> c"
  shows "\<exists>A X Y. get_display_arrays v (Some style) = Inr (Plain A, X, Y) \<and>
           length A = nat (Max (set (z_sp a))) + 1 \<and>
           (\<forall>row \<in> set A. length row = nat (Max (set (s_sp a))) + 1) \<and>
           X = replicate (length A) (dv_s v) \<and>
           length X = length A \<and>
           (\<forall>row \<in> set X. length row = length (dv_s v)) \<and>
           Y = take (length A) (psvd_flld a) \<and>
           ((\<forall>r \<in> set (z_sp a). r < int (length (dv_data v))) \<longrightarrow>
              length A \<le> length (dv_data v))"
proof -
  from assms(4,5) have ne: "z_sp a \<noteq> []" by auto
  from new_coo_matrix_shape [OF ne assms(5,6,7,8)]
  obtain m where m: "new_coo_matrix psvd_data (z_sp a) (s_sp a) = Inr m"
    and sh: "coo_shape m = (nat (Max (set (z_sp a))) + 1, nat (Max (set (s_sp a))) + 1)"
    by blast
  have strat: "as_stratigraphy v = Inr m"
    using assms(1,3) m
    by (simp add: as_stratigraphy_def check_knows_stratigraphy_def knows_stratigraphy_def
        get_strat_attr_def)
  let ?n = "nat (Max (set (z_sp a))) + 1"
  have res: "get_display_arrays v (Some style) =
             Inr (Plain (toarray m), replicate ?n (dv_s v), take ?n (psvd_flld a))"
    using assms(1,2) strat sh
    by (simp add: get_display_arrays_def get_strat_attr_def
        stratigraphy_not_spacetime stratigraphy_not_preserved)
  have la: "length (toarray m) = ?n"
    and lr: "\<forall>row \<in> set (toarray m). length row = nat (Max (set (s_sp a))) + 1"
    using toarray_shape [of m] sh by simp_all
  have bound: "?n \<le> length (dv_data v)"
    if "\<forall>r \<in> set (z_sp a). r < int (length (dv_data v))"
  proof -
    have "Max (set (z_sp a)) \<in> set (z_sp a)"
      using ne by (intro Max_in) simp_all
    with that assms(7) have "0 \<le> Max (set (z_sp a))" "Max (set (z_sp a)) < int (length (dv_data v))"
      by blast+
    then show ?thesis by linarith
  qed
  show ?thesis
    using res la lr bound by (intro exI [of _ "toarray m"] exI [of _ "replicate ?n (dv_s v)"]
        exI [of _ "take ?n (psvd_flld a)"]) simp
qed

theorem stratigraphy_display_arrays_witness:
  "dv_strat_attr v_strat = Some attr_demo \<and>
   ''stratigraphy'' \<in> set stratigraphy_names \<and>
   boolean_index (dv_data v_strat) (psvd_idx attr_demo) = Inr [1, 4, 5, 6] \<and>
   z_sp attr_demo = [0, 1, 0, 0] \<and> s_sp attr_demo = [0, 0, 1, 2] \<and>
   length (dv_data v_strat) = 2 \<and>
   (\<exists>A X Y. get_display_arrays v_strat (Some ''stratigraphy'') = Inr (Plain A, X, Y) \<and>
      length A = 2 \<and> X = [[Num 0, Num 1, Num 2], [Num 0, Num 1, Num 2]] \<and>
      Y = [[0, 0, 0], [1, 1, 1]] \<and>
      length A \<le> length (dv_data v_strat))"
proof -
  have h1: "dv_strat_attr v_strat = Some attr_demo"
    by (simp add: v_strat_def)
  have h2: "''stratigraphy'' \<in> set stratigraphy_names"
    by (simp add: stratigraphy_names_def)
  have h3: "boolean_index (dv_data v_strat) (psvd_idx attr_demo) = Inr [1, 4, 5, 6]"
    by (simp add: boolean_index_def v_strat_def attr_demo_def)
  have h4: "[1, 4, 5, 6 :: real] \<noteq> []"
    by simp
  have h5: "length (z_sp attr_demo) = length [1, 4, 5, 6 :: real]"
    and h6: "length (s_sp attr_demo) = length [1, 4, 5, 6 :: real]"
    by (simp_all add: attr_demo_def)
  have h7: "\<forall>r \<in> set (z_sp attr_demo). 0 \<le> r" and h8: "\<forall>c \<in> set (s_sp attr_demo). 0 \<le> c"
    by (simp_all add: attr_demo_def)
  have b: "\<forall>r \<in> set (z_sp attr_demo). r < int (length (dv_data v_strat))"
    by (simp add: attr_demo_def v_strat_def)
  have mx: "nat (Max (set (z_sp attr_demo))) = Suc 0"
    by (simp add: attr_demo_def)
  have s: "dv_s v_strat = [Num 0, Num 1, Num 2]" and f: "psvd_flld attr_demo = [[0, 0, 0], [1, 1, 1]]"
    by (simp_all add: v_strat_def attr_demo_def)
  from stratigraphy_display_arrays [OF h1 h2 h3 h4 h5 h6 h7 h8] b
  have "\<exists>A X Y. get_display_arrays v_strat (Some ''stratigraphy'') = Inr (Plain A, X, Y) \<and>
      length A = 2 \<and> X = [[Num 0, Num 1, Num 2], [Num 0, Num 1, Num 2]] \<and>
      Y = [[0, 0, 0], [1, 1, 1]] \<and>
      length A \<le> length (dv_data v_strat)"
    by (auto simp add: mx s f numeral_2_eq_2)
  moreover have "z_sp attr_demo = [0, 1, 0, 0]" "s_sp attr_demo = [0, 0, 1, 2]"
    "length (dv_data v_strat) = 2"
    by (simp_all add: attr_demo_def v_strat_def)
  ultimately show ?thesis using h1 h2 h3 by simp
qed

subsection \<open>The along-section coordinate\<close>

text \<open>
  Claim C3, as stated, fails in two places. For a path without points,
  \<open>np.hstack((0, ...))\<close> always puts a first entry, so \<open>s\<close> is \<open>[0]\<close> while \<open>x\<close> and \<open>y\<close>
  are empty. For the path \<open>[[0, 0], [0, 4000000000]]\<close> the square of the step in \<open>x\<close> is
  computed in 64-bit integers and wraps to a negative number, whose square root is \<open>nan\<close>:
  \<open>s\<close> is \<open>[0, nan]\<close>, not \<open>[0, 4000000000]\<close>.
\<close>

theorem along_section_coordinate_counterexample:
  "connect \<lparr> sec_class = PathSection [], sec_connection = None \<rparr> (CubeInstance cube_demo) =
     Inr \<lparr> sec_class = PathSection [], sec_connection = Some cn_empty_path \<rparr> \<and>
   cn_x cn_empty_path = [] \<and> cn_y cn_empty_path = [] \<and> cn_s cn_empty_path = [Num 0] \<and>
   length (cn_s cn_empty_path) \<noteq> length (cn_x cn_empty_path) \<and>
   connect \<lparr> sec_class = PathSection [(0, 0), (0, 4000000000)], sec_connection = None \<rparr>
       (CubeInstance cube_demo) =
     Inr \<lparr> sec_class = PathSection [(0, 0), (0, 4000000000)],
           sec_connection = Some cn_overflow \<rparr> \<and>
   cn_x cn_overflow = [0, 4000000000] \<and> cn_y cn_overflow = [0, 0] \<and>
   cn_s cn_overflow = [Num 0, NaN] \<and>
   cn_s cn_overflow ! 1 \<noteq>
     fadd (cn_s cn_overflow ! 0)
       (Num (sqrt (real_of_int ((cn_x cn_overflow ! 1 - cn_x cn_overflow ! 0) ^ 2 +
                                (cn_y cn_overflow ! 1 - cn_y cn_overflow ! 0) ^ 2))))"
  by (simp add: connect_path int64_eval cube_variables_def cube_demo_def
      cn_empty_path_def cn_overflow_def)

text \<open>
  Claim C3, amended. For every connected section with at least one point, in which the
  squared distance between any two consecutive points is below \<open>2^63\<close> (so that no 64-bit
  operation wraps), \<open>y\<close> and \<open>s\<close> have the length of \<open>x\<close>, \<open>s\<close> holds no \<open>nan\<close>,
  \<open>s[0] = 0\<close>, each later entry is the one before plus the Euclidean distance between
  the two points, and \<open>s\<close> is non-decreasing.
\<close>

theorem along_section_coordinate:
  assumes "connect self (CubeInstance c) = Inr self'"
    and "sec_connection self' = Some cn"
    and "cn_x cn \<noteq> []"
    and "\<forall>i. 1 \<le> i \<and> i < length (cn_x cn) \<longrightarrow>
           (cn_x cn ! i - cn_x cn ! (i - 1)) ^ 2 + (cn_y cn ! i - cn_y cn ! (i - 1)) ^ 2 < 2 ^ 63"
  shows "length (cn_y cn) = length (cn_x cn) \<and>
         (\<exists>s. cn_s cn = map Num s \<and>
            length s = length (cn_x cn) \<and>
            s ! 0 = 0 \<and>
            (\<forall>i. 1 \<le> i \<and> i < length (cn_x cn) \<longrightarrow>
               s ! i = s ! (i - 1) +
                 sqrt (real_of_int ((cn_x cn ! i - cn_x cn ! (i - 1)) ^ 2 +
                                    (cn_y cn ! i - cn_y cn ! (i - 1)) ^ 2))) \<and>
            sorted s)"
proof -
  let ?x = "cn_x cn" and ?y = "cn_y cn"
  let ?d = "\<lambda>j. sqrt (real_of_int ((?x ! Suc j - ?x ! j) ^ 2 + (?y ! Suc j - ?y ! j) ^ 2))"
  let ?ds = "map ?d [0 ..< length ?x - 1]"
  from connect_s [OF assms(1,2)]
  have len: "length ?x = length ?y" and s: "cn_s cn = cumsum (Num 0 # step_lengths ?x ?y)"
    by simp_all
  have small: "\<forall>j. Suc j < length ?x \<longrightarrow>
                 (?x ! Suc j - ?x ! j) ^ 2 + (?y ! Suc j - ?y ! j) ^ 2 < 2 ^ 63"
  proof (intro allI impI)
    fix j assume "Suc j < length ?x"
    with assms(4) [rule_format, of "Suc j"]
    show "(?x ! Suc j - ?x ! j) ^ 2 + (?y ! Suc j - ?y ! j) ^ 2 < 2 ^ 63" by simp
  qed
  have steps: "step_lengths ?x ?y = map Num ?ds"
    by (rule step_lengths_exact [OF len small])
  have "\<forall>v \<in> set ?ds. 0 \<le> v" by auto
  from cumsum_finite [OF this] obtain ts
    where ts: "cumsum (Num 0 # map Num ?ds) = map Num ts" and sorted: "sorted ts"
    by blast
  have cs: "cn_s cn = map Num ts"
    by (simp only: s steps ts)
  from assms(3) have pos: "0 < length ?x" by simp
  have "length (map Num ts) = length (cumsum (Num 0 # map Num ?ds))"
    by (simp only: ts)
  with pos have l: "length ts = length ?x"
    by (simp add: cumsum_def)
  have "map Num ts ! 0 = Num 0"
    unfolding ts [symmetric] by (rule cumsum_nth_0)
  with pos l have z: "ts ! 0 = 0" by simp
  have r: "ts ! i = ts ! (i - 1) +
             sqrt (real_of_int ((?x ! i - ?x ! (i - 1)) ^ 2 + (?y ! i - ?y ! (i - 1)) ^ 2))"
    if "1 \<le> i" "i < length ?x" for i
  proof -
    from that obtain j where j: "i = Suc j" by (cases i) simp_all
    with that have lt: "Suc j < length (Num 0 # map Num ?ds)" by simp
    from cumsum_nth_Suc [OF lt]
    have "map Num ts ! Suc j = fadd (map Num ts ! j) ((Num 0 # map Num ?ds) ! Suc j)"
      by (simp only: ts)
    moreover from that j l have "Suc j < length ts" "j < length ts" "j < length ?x - 1"
      by simp_all
    ultimately have "ts ! Suc j = ts ! j + ?d j" by simp
    with j show ?thesis by simp
  qed
  from len cs l z r sorted show ?thesis by auto
qed

theorem along_section_coordinate_witness:
  "connect \<lparr> sec_class = PathSection [(0, 0), (1, 2)], sec_connection = None \<rparr>
     (CubeInstance cube_demo) =
   Inr \<lparr> sec_class = PathSection [(0, 0), (1, 2)], sec_connection = Some cn_path_demo \<rparr> \<and>
   cn_x cn_path_demo = [0, 2] \<and> cn_y cn_path_demo = [0, 1] \<and>
   (\<exists>s. cn_s cn_path_demo = map Num s \<and> length s = 2 \<and> s ! 0 = 0 \<and>
        s ! 1 = s ! 0 + sqrt 5 \<and> sorted s)"
proof -
  have x: "cn_x cn_path_demo = [0, 2]" and y: "cn_y cn_path_demo = [0, 1]"
    by (simp_all add: cn_path_demo_def)
  have ne: "cn_x cn_path_demo \<noteq> []"
    by (simp add: x)
  have sel: "sec_connection \<lparr> sec_class = PathSection [(0, 0), (1, 2)],
               sec_connection = Some cn_path_demo \<rparr> = Some cn_path_demo"
    by simp
  have small: "\<forall>i. 1 \<le> i \<and> i < length (cn_x cn_path_demo) \<longrightarrow>
           (cn_x cn_path_demo ! i - cn_x cn_path_demo ! (i - 1)) ^ 2 +
           (cn_y cn_path_demo ! i - cn_y cn_path_demo ! (i - 1)) ^ 2 < 2 ^ 63"
  proof (intro allI impI)
    fix i assume "1 \<le> i \<and> i < length (cn_x cn_path_demo)"
    then have "i = 1" by (simp add: x)
    then show "(cn_x cn_path_demo ! i - cn_x cn_path_demo ! (i - 1)) ^ 2 +
           (cn_y cn_path_demo ! i - cn_y cn_path_demo ! (i - 1)) ^ 2 < 2 ^ 63"
      by (simp add: x y)
  qed
  from along_section_coordinate [OF connect_path_demo sel ne small]
  obtain s where s: "cn_s cn_path_demo = map Num s" "length s = length (cn_x cn_path_demo)"
      "s ! 0 = 0" "sorted s"
    and step: "\<forall>i. 1 \<le> i \<and> i < length (cn_x cn_path_demo) \<longrightarrow>
               s ! i = s ! (i - 1) +
                 sqrt (real_of_int ((cn_x cn_path_demo ! i - cn_x cn_path_demo ! (i - 1)) ^ 2 +
                                    (cn_y cn_path_demo ! i - cn_y cn_path_demo ! (i - 1)) ^ 2))"
    by blast
  from step [rule_format, of 1] have "s ! 1 = s ! 0 + sqrt 5"
    by (simp add: x y)
  with s have "\<exists>s. cn_s cn_path_demo = map Num s \<and> length s = 2 \<and> s ! 0 = 0 \<and>
        s ! 1 = s ! 0 + sqrt 5 \<and> sorted s"
    by (auto simp: x)
  with connect_path_demo x y show ?thesis by simp
qed

text \<open>
  Claim C4, as stated, fails on a cube without columns: \<open>x\<close> and \<open>y\<close> are empty and
  \<open>s\<close> is \<open>[0]\<close>, of length one.
\<close>

theorem strike_zero_width_counterexample:
  "cube_getitem cube_flat ''eta'' = Inr eta_flat \<and> a3_shape eta_flat = (1, 1, 0) \<and>
   connect \<lparr> sec_class = StrikeSection 0, sec_connection = None \<rparr> (CubeInstance cube_flat) =
     Inr \<lparr> sec_class = StrikeSection 0, sec_connection = Some cn_strike_flat \<rparr> \<and>
   cn_s cn_strike_flat = [Num 0] \<and> length (cn_s cn_strike_flat) \<noteq> 0"
  by (simp add: connect_def compute_section_coords_def compute_section_attrs_def
      broadcast2_def diff1_def cumsum_def cube_getitem_def cube_variables_def
      cube_flat_def cube_demo_def eta_flat_def cn_strike_flat_def)

text \<open>
  Claim C4, amended. A strike section with index \<open>y0\<close> connects to a cube whose variable
  \<open>eta\<close> has \<open>nx\<close> columns, \<open>nx\<close> at least one, with \<open>x = 0, ..., nx - 1\<close>, \<open>y\<close> equal to
  \<open>y0\<close> at each of its \<open>nx\<close> places, and \<open>s\<close> of length \<open>nx\<close> starting at 0 and growing
  by 1 at each step.
\<close>

theorem strike_section_coordinates:
  assumes "sec_class self = StrikeSection y0"
    and "cube_getitem c ''eta'' = Inr eta"
    and "a3_shape eta = (nt, ny, nx)"
    and "0 < nx"
  shows "\<exists>cn. connect self (CubeInstance c) = Inr (self\<lparr> sec_connection := Some cn \<rparr>) \<and>
           cn_x cn = map int [0 ..< nx] \<and>
           cn_y cn = replicate nx y0 \<and>
           length (cn_s cn) = nx \<and>
           cn_s cn ! 0 = Num 0 \<and>
           (\<forall>i. Suc i < nx \<longrightarrow> cn_s cn ! Suc i = fadd (cn_s cn ! i) (Num 1)) \<and>
           cn_s cn = map (\<lambda>i. Num (real i)) [0 ..< nx]"
proof -
  from assms(4) obtain n where n: "nx = Suc n" by (cases nx) simp_all
  have coords: "compute_section_coords (sec_class self) c = Inr (map int [0 ..< nx], replicate nx y0)"
    using assms(1,2,3) by (simp add: compute_section_coords_def)
  have attrs: "compute_section_attrs (map int [0 ..< nx]) (replicate nx y0) =
               Inr (map (\<lambda>i. Num (real i)) [0 ..< nx])"
    using compute_section_attrs_same_length [of "map int [0 ..< nx]" "replicate nx y0"]
      step_lengths_strike [of nx y0] cumsum_unit_steps [of n] n
    by simp
  let ?cn = "\<lparr> cn_cube = c, cn_variables = cube_variables c,
               cn_x = map int [0 ..< nx], cn_y = replicate nx y0,
               cn_s = map (\<lambda>i. Num (real i)) [0 ..< nx], cn_z = cube_z c \<rparr>"
  have "connect self (CubeInstance c) = Inr (self\<lparr> sec_connection := Some ?cn \<rparr>)"
    by (simp add: connect_def coords attrs)
  moreover have "cn_s ?cn ! 0 = Num 0"
    using assms(4) by simp
  moreover have "\<forall>i. Suc i < nx \<longrightarrow> cn_s ?cn ! Suc i = fadd (cn_s ?cn ! i) (Num 1)"
    by simp
  ultimately show ?thesis
    by (intro exI [of _ ?cn]) simp
qed

theorem strike_section_coordinates_witness:
  "cube_getitem cube_demo ''eta'' = Inr eta_demo \<and> a3_shape eta_demo = (2, 2, 3) \<and>
   (\<exists>cn. connect \<lparr> sec_class = StrikeSection 1, sec_connection = None \<rparr>
            (CubeInstance cube_demo) =
          Inr \<lparr> sec_class = StrikeSection 1, sec_connection = Some cn \<rparr> \<and>
        cn_x cn = [0, 1, 2] \<and> cn_y cn = [1, 1, 1] \<and>
        cn_s cn = [Num 0, Num 1, Num 2])"
proof -
  have g: "cube_getitem cube_demo ''eta'' = Inr eta_demo"
    by (simp add: cube_getitem_def cube_demo_def)
  have sh: "a3_shape eta_demo = (2, 2, 3)"
    by (simp add: eta_demo_def)
  have c: "sec_class \<lparr> sec_class = StrikeSection 1, sec_connection = None \<rparr> = StrikeSection 1"
    by simp
  have u: "[0 ..< 3] = [0, 1, 2]"
    by (simp add: upt_rec)
  have r: "replicate 3 (1::int) = [1, 1, 1]"
    by (simp add: numeral_3_eq_3)
  from strike_section_coordinates [OF c g sh] g sh show ?thesis
    by (auto simp add: u r)
qed

subsection \<open>Extraction and the spacetime display arrays\<close>

text \<open>
  Claim C5, as stated, fails for a path without points: the extracted array has no
  column, the \<open>S\<close> and \<open>Z\<close> meshes have one.
\<close>

theorem empty_path_round_trip_counterexample:
  "connect \<lparr> sec_class = PathSection [], sec_connection = None \<rparr> (CubeInstance cube_demo) =
     Inr \<lparr> sec_class = PathSection [], sec_connection = Some cn_empty_path \<rparr> \<and>
   cube_class cube_demo = DataCube \<and>
   getitem \<lparr> sec_class = PathSection [], sec_connection = Some cn_empty_path \<rparr> ''eta'' =
     Inr (DataVar v_empty_path) \<and>
   get_display_arrays v_empty_path (Some ''spacetime'') =
     Inr (Plain [[], []], [[Num 0], [Num 0]], [[0], [1]]) \<and>
   map length [[], [] :: real list] \<noteq> map length [[Num 0], [Num 0]]"
  by (simp add: connect_path int64_eval cube_variables_def cube_demo_def
      cn_empty_path_def getitem_def cube_getitem_def fancy_index_def broadcast2_def
      eta_demo_def v_empty_path_def get_display_arrays_def spacetime_names_def
      dv_S_def dv_Z_def meshgrid_def)

text \<open>
  Claim C5, amended. Let a section be connected to a data cube, let \<open>var\<close> be one of its
  variables and let the direct slice \<open>cube[var][:, y, x]\<close> exist, with the preservation
  array of the cube shaped like the variable when the cube knows stratigraphy. Then
  \<open>section[var]\<close> is a data variable whose display arrays for a spacetime name are that
  slice and the meshes of \<open>s\<close> and \<open>z\<close>. When the section has at least one point and \<open>z\<close>
  has one entry per layer, the three arrays have one row per layer and one column per
  point.
\<close>

theorem spacetime_round_trip:
  assumes "connect self (CubeInstance c) = Inr self'"
    and "sec_connection self' = Some cn"
    and "cube_class c = DataCube"
    and "cube_getitem c var = Inr a"
    and "fancy_index a (cn_y cn) (cn_x cn) = Inr d"
    and "cube_knows_stratigraphy c \<longrightarrow> a3_shape (cube_psvd_idx c) = a3_shape a"
    and "style \<in> set spacetime_names"
  shows "var \<in> set (cube_variables c) \<and>
         (\<exists>v. getitem self' var = Inr (DataVar v) \<and>
            get_display_arrays v (Some style) =
              Inr (Plain d, fst (meshgrid (cn_s cn) (cube_z c)),
                   snd (meshgrid (cn_s cn) (cube_z c)))) \<and>
         (cn_x cn \<noteq> [] \<and> length (cube_z c) = length (a3_cells a) \<longrightarrow>
            length d = length (a3_cells a) \<and>
            (\<forall>row \<in> set d. length row = length (cn_x cn)) \<and>
            length (fst (meshgrid (cn_s cn) (cube_z c))) = length (a3_cells a) \<and>
            (\<forall>row \<in> set (fst (meshgrid (cn_s cn) (cube_z c))). length row = length (cn_x cn)) \<and>
            length (snd (meshgrid (cn_s cn) (cube_z c))) = length (a3_cells a) \<and>
            (\<forall>row \<in> set (snd (meshgrid (cn_s cn) (cube_z c))). length row = length (cn_x cn)))"
proof -
  from connect_s [OF assms(1,2)]
  have len: "length (cn_x cn) = length (cn_y cn)" and z: "cn_z cn = cube_z c"
    and cb: "cn_cube cn = c"
    by simp_all
  have var: "var \<in> set (cube_variables c)"
    using assms(4) by (rule cube_getitem_variables)
  have get: "\<exists>v. getitem self' var = Inr (DataVar v) \<and>
            get_display_arrays v (Some style) =
              Inr (Plain d, fst (meshgrid (cn_s cn) (cube_z c)),
                   snd (meshgrid (cn_s cn) (cube_z c)))"
  proof (cases "cube_knows_stratigraphy c")
    case True
    with assms(6) have "a3_shape (cube_psvd_idx c) = a3_shape a" by simp
    from fancy_index_same_shape [OF assms(5) this]
    obtain m where m: "fancy_index (cube_psvd_idx c) (cn_y cn) (cn_x cn) = Inr m" ..
    from True m assms(2,3,4,5,7) cb z show ?thesis
      by (simp add: getitem_def get_display_arrays_def dv_S_def dv_Z_def)
  next
    case False
    with assms(2,3,4,5,7) cb z show ?thesis
      by (simp add: getitem_def get_display_arrays_def dv_S_def dv_Z_def)
  qed
  have shape: "length d = length (a3_cells a) \<and>
            (\<forall>row \<in> set d. length row = length (cn_x cn)) \<and>
            length (fst (meshgrid (cn_s cn) (cube_z c))) = length (a3_cells a) \<and>
            (\<forall>row \<in> set (fst (meshgrid (cn_s cn) (cube_z c))). length row = length (cn_x cn)) \<and>
            length (snd (meshgrid (cn_s cn) (cube_z c))) = length (a3_cells a) \<and>
            (\<forall>row \<in> set (snd (meshgrid (cn_s cn) (cube_z c))). length row = length (cn_x cn))"
    if ne: "cn_x cn \<noteq> []" and lz: "length (cube_z c) = length (a3_cells a)"
  proof -
    from connect_s [OF assms(1,2)]
    have s: "cn_s cn = cumsum (Num 0 # step_lengths (cn_x cn) (cn_y cn))" by simp
    from ne have "0 < length (cn_x cn)" by simp
    with len have ls: "length (cn_s cn) = length (cn_x cn)"
      by (simp add: s cumsum_def length_step_lengths)
    from fancy_index_rows [OF assms(5)] len
    have "length d = length (a3_cells a)" "\<forall>row \<in> set d. length row = length (cn_x cn)"
      by simp_all
    with ls lz show ?thesis by (auto simp: meshgrid_def)
  qed
  from var get shape show ?thesis by blast
qed

theorem spacetime_round_trip_witness:
  "connect \<lparr> sec_class = PathSection [(0, 0), (1, 2)], sec_connection = None \<rparr>
     (CubeInstance cube_demo) =
   Inr \<lparr> sec_class = PathSection [(0, 0), (1, 2)], sec_connection = Some cn_path_demo \<rparr> \<and>
   cube_class cube_demo = DataCube \<and>
   cube_getitem cube_demo ''eta'' = Inr eta_demo \<and>
   fancy_index eta_demo (cn_y cn_path_demo) (cn_x cn_path_demo) = Inr [[1, 6], [7, 12]] \<and>
   ''spacetime'' \<in> set spacetime_names \<and>
   cn_x cn_path_demo \<noteq> [] \<and> length (cube_z cube_demo) = length (a3_cells eta_demo) \<and>
   (\<exists>v. getitem \<lparr> sec_class = PathSection [(0, 0), (1, 2)],
                   sec_connection = Some cn_path_demo \<rparr> ''eta'' = Inr (DataVar v) \<and>
        get_display_arrays v (Some ''spacetime'') =
          Inr (Plain [[1, 6], [7, 12]], [[Num 0, Num (sqrt 5)], [Num 0, Num (sqrt 5)]], [[0, 0], [1, 1]]))"
proof -
  have h3: "cube_class cube_demo = DataCube"
    by (simp add: cube_demo_def)
  have h4: "cube_getitem cube_demo ''eta'' = Inr eta_demo"
    by (simp add: cube_getitem_def cube_demo_def)
  have h5: "fancy_index eta_demo (cn_y cn_path_demo) (cn_x cn_path_demo) = Inr [[1, 6], [7, 12]]"
    by (simp add: fancy_index_def broadcast2_def norm_index_def eta_demo_def cn_path_demo_def)
  have h6: "cube_knows_stratigraphy cube_demo \<longrightarrow>
            a3_shape (cube_psvd_idx cube_demo) = a3_shape eta_demo"
    by (simp add: cube_demo_def)
  have h7: "''spacetime'' \<in> set spacetime_names"
    by (simp add: spacetime_names_def)
  have sel: "sec_connection \<lparr> sec_class = PathSection [(0, 0), (1, 2)],
               sec_connection = Some cn_path_demo \<rparr> = Some cn_path_demo"
    by simp
  have ne: "cn_x cn_path_demo \<noteq> []"
    by (simp add: cn_path_demo_def)
  have lz: "length (cube_z cube_demo) = length (a3_cells eta_demo)"
    by (simp add: cube_demo_def eta_demo_def)
  have mesh: "meshgrid (cn_s cn_path_demo) (cube_z cube_demo) =
                ([[Num 0, Num (sqrt 5)], [Num 0, Num (sqrt 5)]], [[0, 0], [1, 1]])"
    by (simp add: meshgrid_def cn_path_demo_def cube_demo_def)
  from spacetime_round_trip [OF connect_path_demo sel h3 h4 h5 h6 h7]
  have "\<exists>v. getitem \<lparr> sec_class = PathSection [(0, 0), (1, 2)],
                   sec_connection = Some cn_path_demo \<rparr> ''eta'' = Inr (DataVar v) \<and>
        get_display_arrays v (Some ''spacetime'') =
          Inr (Plain [[1, 6], [7, 12]], [[Num 0, Num (sqrt 5)], [Num 0, Num (sqrt 5)]], [[0, 0], [1, 1]])"
    by (simp add: mesh)
  with connect_path_demo h3 h4 h5 h7 ne lz show ?thesis by simp
qed

subsection \<open>Capability errors\<close>

text \<open>
  Claim C6. A data variable built without stratigraphy attributes raises
  \<open>AttributeError\<close> from \<open>as_preserved\<close>, from \<open>as_stratigraphy\<close>, and from
  \<open>get_display_arrays\<close> and \<open>get_display_lines\<close> with a preserved or a stratigraphy
  name; a stratigraphy variable raises \<open>AttributeError\<close> from its three display methods
  with a spacetime or a preserved name. The error is the result of the call: nothing
  catches it.
\<close>

theorem capability_errors:
  "(\<not> knows_stratigraphy v \<longrightarrow>
      as_preserved v = Inl AttributeError \<and>
      as_stratigraphy v = Inl AttributeError \<and>
      (style \<in> set preserved_names \<union> set stratigraphy_names \<longrightarrow>
         get_display_arrays v (Some style) = Inl AttributeError \<and>
         get_display_lines v (Some style) = Inl AttributeError)) \<and>
   (style \<in> set spacetime_names \<union> set preserved_names \<longrightarrow>
      strat_get_display_arrays w (Some style) = Inl AttributeError \<and>
      strat_get_display_lines w (Some style) = Inl AttributeError \<and>
      strat_get_display_limits w (Some style) = Inl AttributeError)"
proof -
  have a: "as_preserved v = Inl AttributeError" "as_stratigraphy v = Inl AttributeError"
    if "\<not> knows_stratigraphy v"
    using that by (simp_all add: as_preserved_def as_stratigraphy_def
        check_knows_stratigraphy_unknown)
  have b: "get_display_arrays v (Some style) = Inl AttributeError"
    "get_display_lines v (Some style) = Inl AttributeError"
    if "\<not> knows_stratigraphy v" "style \<in> set preserved_names \<union> set stratigraphy_names"
    using that a
    by (auto simp: get_display_arrays_def get_display_lines_def
        check_knows_stratigraphy_unknown
        preserved_not_spacetime stratigraphy_not_spacetime stratigraphy_not_preserved)
  have c: "strat_get_display_arrays w (Some style) = Inl AttributeError"
    "strat_get_display_lines w (Some style) = Inl AttributeError"
    "strat_get_display_limits w (Some style) = Inl AttributeError"
    if "style \<in> set spacetime_names \<union> set preserved_names"
    using that
    by (auto simp: strat_get_display_arrays_def strat_get_display_lines_def
        strat_get_display_limits_def check_knows_spacetime_def)
  from a b c show ?thesis by blast
qed

theorem capability_errors_witness:
  "\<not> knows_stratigraphy v_plain \<and>
   ''preserved'' \<in> set preserved_names \<union> set stratigraphy_names \<and>
   ''preserved'' \<in> set spacetime_names \<union> set preserved_names \<and>
   as_preserved v_plain = Inl AttributeError \<and>
   as_stratigraphy v_plain = Inl AttributeError \<and>
   get_display_arrays v_plain (Some ''preserved'') = Inl AttributeError \<and>
   get_display_lines v_plain (Some ''preserved'') = Inl AttributeError \<and>
   strat_get_display_arrays w_strat (Some ''preserved'') = Inl AttributeError \<and>
   strat_get_display_lines w_strat (Some ''preserved'') = Inl AttributeError \<and>
   strat_get_display_limits w_strat (Some ''preserved'') = Inl AttributeError"
  using capability_errors [of v_plain "''preserved''" w_strat]
  by (simp add: knows_stratigraphy_def v_plain_def preserved_names_def)

subsection \<open>Construction and connection\<close>

text \<open>
  Claim C7. \<open>BaseSection.__init__\<close> raises \<open>ValueError\<close> for more than one positional
  argument; without arguments it returns an unconnected section, and extracting any
  variable from that section raises \<open>AttributeError\<close>; extracting from a section bound to
  a cube of another class than \<open>DataCube\<close> and \<open>StratigraphyCube\<close> raises \<open>TypeError\<close>,
  and so does connecting to an object that is not a cube.
\<close>

theorem construction_and_connection_errors:
  "(length args > 1 \<longrightarrow> BaseSection_init k args = Inl ValueError) \<and>
   BaseSection_init k [] = Inr \<lparr> sec_class = k, sec_connection = None \<rparr> \<and>
   getitem \<lparr> sec_class = k, sec_connection = None \<rparr> var = Inl AttributeError \<and>
   (sec_connection self = Some cn \<and> cube_class (cn_cube cn) = OtherCube \<longrightarrow>
      getitem self var = Inl TypeError) \<and>
   connect self NotACube = Inl TypeError \<and>
   BaseSection_init k [NotACube] = Inl TypeError"
  by (simp add: BaseSection_init_def getitem_def connect_def)

theorem construction_and_connection_errors_witness:
  "length [NotACube, NotACube] > 1 \<and>
   BaseSection_init (StrikeSection 0) [NotACube, NotACube] = Inl ValueError \<and>
   BaseSection_init (PathSection [(0, 1), (1, 2)]) [CubeInstance cube_other] =
     Inr \<lparr> sec_class = PathSection [(0, 1), (1, 2)], sec_connection = Some
            \<lparr> cn_cube = cube_other, cn_variables = [''eta''], cn_x = [1, 2], cn_y = [0, 1],
              cn_s = [Num 0, Num (sqrt 2)], cn_z = [0, 1] \<rparr> \<rparr> \<and>
   getitem \<lparr> sec_class = PathSection [(0, 1), (1, 2)], sec_connection = Some
            \<lparr> cn_cube = cube_other, cn_variables = [''eta''], cn_x = [1, 2], cn_y = [0, 1],
              cn_s = [Num 0, Num (sqrt 2)], cn_z = [0, 1] \<rparr> \<rparr> ''eta'' = Inl TypeError"
proof -
  have c: "BaseSection_init (PathSection [(0, 1), (1, 2)]) [CubeInstance cube_other] =
     Inr \<lparr> sec_class = PathSection [(0, 1), (1, 2)], sec_connection = Some
            \<lparr> cn_cube = cube_other, cn_variables = [''eta''], cn_x = [1, 2], cn_y = [0, 1],
              cn_s = [Num 0, Num (sqrt 2)], cn_z = [0, 1] \<rparr> \<rparr>"
    by (simp add: BaseSection_init_def connect_path int64_eval cube_variables_def
        cube_other_def cube_demo_def)
  have o: "cube_class cube_other = OtherCube"
    by (simp add: cube_other_def)
  show ?thesis
    using c o
      construction_and_connection_errors [of "[NotACube, NotACube]" "StrikeSection 0" "''eta''"
        "\<lparr> sec_class = PathSection [(0, 1), (1, 2)], sec_connection = Some
            \<lparr> cn_cube = cube_other, cn_variables = [''eta''], cn_x = [1, 2], cn_y = [0, 1],
              cn_s = [Num 0, Num (sqrt 2)], cn_z = [0, 1] \<rparr> \<rparr>"
        "\<lparr> cn_cube = cube_other, cn_variables = [''eta''], cn_x = [1, 2], cn_y = [0, 1],
              cn_s = [Num 0, Num (sqrt 2)], cn_z = [0, 1] \<rparr>"]
    by simp
qed

subsection \<open>Style dispatch\<close>

text \<open>
  Claim C8. On a data variable and on a stratigraphy variable, \<open>get_display_arrays\<close>,
  \<open>get_display_lines\<close> and \<open>get_display_limits\<close> raise \<open>ValueError\<close> for a style that is
  in none of the three lists of names. Without a style, a data variable behaves as for
  \<open>'spacetime'\<close> and a stratigraphy variable as for \<open>'stratigraphy'\<close>.
\<close>

theorem bad_style_and_defaults:
  "(style \<notin> set spacetime_names \<union> set preserved_names \<union> set stratigraphy_names \<longrightarrow>
      get_display_arrays v (Some style) = Inl ValueError \<and>
      get_display_lines v (Some style) = Inl ValueError \<and>
      get_display_limits v (Some style) = Inl ValueError \<and>
      strat_get_display_arrays w (Some style) = Inl ValueError \<and>
      strat_get_display_lines w (Some style) = Inl ValueError \<and>
      strat_get_display_limits w (Some style) = Inl ValueError) \<and>
   data_default_style \<in> set spacetime_names \<and>
   get_display_arrays v None = get_display_arrays v (Some ''spacetime'') \<and>
   get_display_lines v None = get_display_lines v (Some ''spacetime'') \<and>
   get_display_limits v None = get_display_limits v (Some ''spacetime'') \<and>
   strat_default_style \<in> set stratigraphy_names \<and>
   strat_get_display_arrays w None = strat_get_display_arrays w (Some ''stratigraphy'') \<and>
   strat_get_display_lines w None = strat_get_display_lines w (Some ''stratigraphy'') \<and>
   strat_get_display_limits w None = strat_get_display_limits w (Some ''stratigraphy'')"
  by (simp add: get_display_arrays_def get_display_lines_def get_display_limits_def
      strat_get_display_arrays_def strat_get_display_lines_def strat_get_display_limits_def
      data_default_style_def strat_default_style_def spacetime_names_def stratigraphy_names_def)

theorem bad_style_and_defaults_witness:
  "''bogus'' \<notin> set spacetime_names \<union> set preserved_names \<union> set stratigraphy_names \<and>
   get_display_arrays v_plain (Some ''bogus'') = Inl ValueError \<and>
   get_display_lines v_plain (Some ''bogus'') = Inl ValueError \<and>
   get_display_limits v_plain (Some ''bogus'') = Inl ValueError \<and>
   strat_get_display_arrays w_strat (Some ''bogus'') = Inl ValueError \<and>
   strat_get_display_lines w_strat (Some ''bogus'') = Inl ValueError \<and>
   strat_get_display_limits w_strat (Some ''bogus'') = Inl ValueError"
  using bad_style_and_defaults [of "''bogus''" v_plain w_strat]
  by (simp add: style_names)

subsection \<open>Display limits\<close>

text \<open>
  Claim C9. For a data variable that knows stratigraphy, \<open>get_display_limits\<close> with a
  stratigraphy name returns the smallest and the largest entry of the \<open>S\<close> mesh, the
  smallest entry of \<open>strata\<close>, and 1.5 times the largest entry of \<open>strata\<close> (numpy's
  reductions need arrays with at least one entry; the smallest and the largest entry of
  an \<open>S\<close> mesh that holds \<open>nan\<close> are \<open>nan\<close>).
\<close>

theorem limits_stratigraphy:
  assumes "dv_strat_attr v = Some a"
    and "style \<in> set stratigraphy_names"
    and "concat (dv_S v) \<noteq> []"
    and "concat (strata a) \<noteq> []"
  shows "knows_stratigraphy v \<and>
         (\<exists>s_min s_max.
            get_display_limits v (Some style) =
              Inr (s_min, s_max, Min (set (concat (strata a))),
                   1.5 * Max (set (concat (strata a)))) \<and>
            (\<forall>S. concat (dv_S v) = map Num S \<longrightarrow>
               s_min = Num (Min (set S)) \<and> s_max = Num (Max (set S))) \<and>
            (NaN \<in> set (concat (dv_S v)) \<longrightarrow> s_min = NaN \<and> s_max = NaN))"
proof -
  from np_fmin_spec [OF assms(3)] obtain s_min
    where lo: "np_fmin (dv_S v) = Inr s_min" "NaN \<in> set (concat (dv_S v)) \<longrightarrow> s_min = NaN"
      "\<forall>S. concat (dv_S v) = map Num S \<longrightarrow> s_min = Num (Min (set S))"
    by blast
  from np_fmax_spec [OF assms(3)] obtain s_max
    where hi: "np_fmax (dv_S v) = Inr s_max" "NaN \<in> set (concat (dv_S v)) \<longrightarrow> s_max = NaN"
      "\<forall>S. concat (dv_S v) = map Num S \<longrightarrow> s_max = Num (Max (set S))"
    by blast
  have k: "knows_stratigraphy v"
    using assms(1) by (simp add: knows_stratigraphy_def)
  have "get_display_limits v (Some style) =
          Inr (s_min, s_max, Min (set (concat (strata a))), 1.5 * Max (set (concat (strata a))))"
    using assms lo(1) hi(1)
    by (simp add: get_display_limits_def knows_stratigraphy_def check_knows_stratigraphy_def
        get_strat_attr_def np_min_nonempty np_max_nonempty
        stratigraphy_not_spacetime stratigraphy_not_preserved)
  with k lo(2,3) hi(2,3) show ?thesis by blast
qed

theorem limits_stratigraphy_witness:
  "dv_strat_attr v_strat = Some attr_demo \<and>
   ''stratigraphy'' \<in> set stratigraphy_names \<and>
   concat (dv_S v_strat) = map Num [0, 1, 2, 0, 1, 2] \<and>
   concat (strata attr_demo) = [0, 0, 0, 1, 1/2, 1/2] \<and>
   get_display_limits v_strat (Some ''stratigraphy'') = Inr (Num 0, Num 2, 0, 1.5)"
proof -
  have h1: "dv_strat_attr v_strat = Some attr_demo"
    by (simp add: v_strat_def)
  have h2: "''stratigraphy'' \<in> set stratigraphy_names"
    by (simp add: stratigraphy_names_def)
  have S: "concat (dv_S v_strat) = map Num [0, 1, 2, 0, 1, 2]"
    by (simp add: v_strat_def dv_S_def meshgrid_def)
  have T: "concat (strata attr_demo) = [0, 0, 0, 1, 1/2, 1/2]"
    by (simp add: attr_demo_def)
  have h3: "concat (dv_S v_strat) \<noteq> []"
    unfolding S by simp
  have h4: "concat (strata attr_demo) \<noteq> []"
    unfolding T by simp
  from limits_stratigraphy [OF h1 h2 h3 h4] obtain s_min s_max
    where r: "get_display_limits v_strat (Some ''stratigraphy'') =
              Inr (s_min, s_max, Min (set (concat (strata attr_demo))),
                   1.5 * Max (set (concat (strata attr_demo))))"
      and f: "\<forall>S. concat (dv_S v_strat) = map Num S \<longrightarrow>
               s_min = Num (Min (set S)) \<and> s_max = Num (Max (set S))"
    by blast
  from f [rule_format, OF S] have "s_min = Num 0" "s_max = Num 2" by simp_all
  with r have "get_display_limits v_strat (Some ''stratigraphy'') = Inr (Num 0, Num 2, 0, 1.5)"
    by (simp add: T)
  with h1 h2 S T show ?thesis by simp
qed

text \<open>
  Claim C10. For a data variable built without stratigraphy attributes,
  \<open>get_display_limits\<close> with a preserved name gives the result of the spacetime style
  and never \<open>AttributeError\<close>: the bounding box of the \<open>S\<close> and \<open>Z\<close> meshes when they
  have entries (with \<open>nan\<close> as the horizontal bounds of an \<open>S\<close> mesh that holds \<open>nan\<close>).
  \<open>as_preserved\<close>, \<open>get_display_arrays\<close> and \<open>get_display_lines\<close> with the same name raise
  \<open>AttributeError\<close>.
\<close>

theorem limits_preserved_without_stratigraphy:
  assumes "\<not> knows_stratigraphy v" and "style \<in> set preserved_names"
  shows "get_display_limits v (Some style) = get_display_limits v (Some ''spacetime'') \<and>
         get_display_limits v (Some style) \<noteq> Inl AttributeError \<and>
         (concat (dv_S v) \<noteq> [] \<and> concat (dv_Z v) \<noteq> [] \<longrightarrow>
            (\<exists>s_min s_max.
               get_display_limits v (Some style) =
                 Inr (s_min, s_max, Min (set (concat (dv_Z v))), Max (set (concat (dv_Z v)))) \<and>
               (\<forall>S. concat (dv_S v) = map Num S \<longrightarrow>
                  s_min = Num (Min (set S)) \<and> s_max = Num (Max (set S))) \<and>
               (NaN \<in> set (concat (dv_S v)) \<longrightarrow> s_min = NaN \<and> s_max = NaN))) \<and>
         as_preserved v = Inl AttributeError \<and>
         get_display_arrays v (Some style) = Inl AttributeError \<and>
         get_display_lines v (Some style) = Inl AttributeError"
proof -
  have sp: "''spacetime'' \<in> set spacetime_names"
    by (simp add: spacetime_names_def)
  have l1: "get_display_limits v (Some style) = get_display_limits v (Some ''spacetime'')"
    using assms(2) sp by (simp add: spacetime_limits)
  have l2: "get_display_limits v (Some style) \<noteq> Inl AttributeError"
    using spacetime_limits_error [of style v AttributeError] assms(2) by auto
  have l3: "\<exists>s_min s_max.
               get_display_limits v (Some style) =
                 Inr (s_min, s_max, Min (set (concat (dv_Z v))), Max (set (concat (dv_Z v)))) \<and>
               (\<forall>S. concat (dv_S v) = map Num S \<longrightarrow>
                  s_min = Num (Min (set S)) \<and> s_max = Num (Max (set S))) \<and>
               (NaN \<in> set (concat (dv_S v)) \<longrightarrow> s_min = NaN \<and> s_max = NaN)"
    if ne: "concat (dv_S v) \<noteq> []" "concat (dv_Z v) \<noteq> []"
  proof -
    from np_fmin_spec [OF ne(1)] obtain s_min
      where lo: "np_fmin (dv_S v) = Inr s_min" "NaN \<in> set (concat (dv_S v)) \<longrightarrow> s_min = NaN"
        "\<forall>S. concat (dv_S v) = map Num S \<longrightarrow> s_min = Num (Min (set S))"
      by blast
    from np_fmax_spec [OF ne(1)] obtain s_max
      where hi: "np_fmax (dv_S v) = Inr s_max" "NaN \<in> set (concat (dv_S v)) \<longrightarrow> s_max = NaN"
        "\<forall>S. concat (dv_S v) = map Num S \<longrightarrow> s_max = Num (Max (set S))"
      by blast
    have "get_display_limits v (Some style) =
            Inr (s_min, s_max, Min (set (concat (dv_Z v))), Max (set (concat (dv_Z v))))"
      using assms(2) lo(1) hi(1) ne(2)
      by (simp add: spacetime_limits np_min_nonempty np_max_nonempty)
    with lo(2,3) hi(2,3) show ?thesis by blast
  qed
  have p: "as_preserved v = Inl AttributeError"
    using assms(1) by (simp add: as_preserved_def check_knows_stratigraphy_unknown)
  have a: "get_display_arrays v (Some style) = Inl AttributeError"
    using assms p by (simp add: get_display_arrays_def preserved_not_spacetime)
  have l: "get_display_lines v (Some style) = Inl AttributeError"
    using assms by (simp add: get_display_lines_def preserved_not_spacetime
        check_knows_stratigraphy_unknown)
  from l1 l2 l3 p a l show ?thesis by blast
qed

theorem limits_preserved_without_stratigraphy_witness:
  "\<not> knows_stratigraphy v_plain \<and> ''preserved'' \<in> set preserved_names \<and>
   get_display_limits v_plain (Some ''preserved'') = Inr (Num 0, Num 2, 0, 1) \<and>
   get_display_arrays v_plain (Some ''preserved'') = Inl AttributeError \<and>
   get_display_lines v_plain (Some ''preserved'') = Inl AttributeError"
proof -
  have h1: "\<not> knows_stratigraphy v_plain"
    by (simp add: knows_stratigraphy_def v_plain_def)
  have h2: "''preserved'' \<in> set preserved_names"
    by (simp add: preserved_names_def)
  note t = limits_preserved_without_stratigraphy [OF h1 h2]
  have S: "concat (dv_S v_plain) = map Num [0, 1, 2, 0, 1, 2]"
    by (simp add: v_plain_def dv_S_def meshgrid_def)
  have Z: "concat (dv_Z v_plain) = [0, 0, 0, 1, 1, 1]"
    by (simp add: v_plain_def dv_Z_def meshgrid_def)
  have ne: "concat (dv_S v_plain) \<noteq> [] \<and> concat (dv_Z v_plain) \<noteq> []"
    unfolding S Z by simp
  from t [THEN conjunct2, THEN conjunct2, THEN conjunct1, rule_format, OF ne]
  obtain s_min s_max
    where r: "get_display_limits v_plain (Some ''preserved'') =
              Inr (s_min, s_max, Min (set (concat (dv_Z v_plain))),
                   Max (set (concat (dv_Z v_plain))))"
      and f: "\<forall>S. concat (dv_S v_plain) = map Num S \<longrightarrow>
               s_min = Num (Min (set S)) \<and> s_max = Num (Max (set S))"
    by blast
  from f [rule_format, OF S] have "s_min = Num 0" "s_max = Num 2" by simp_all
  with r have box: "get_display_limits v_plain (Some ''preserved'') = Inr (Num 0, Num 2, 0, 1)"
    by (simp add: Z)
  from h1 h2 box t [THEN conjunct2, THEN conjunct2, THEN conjunct2, THEN conjunct2]
  show ?thesis by simp
qed

end
